theory Spec2Isabelle
  imports Main "HOL-Library.AList" "HOL-Library.Sublist" "HOL-Library.Char_ord"
    "HOL-Library.List_Lexorder"
begin

section \<open>Strings\<close>

text \<open>
  A Go string is a sequence of bytes; \<open>len\<close> and slicing count bytes. It is modelled as
  \<^typ>\<open>string\<close> (a list of 8-bit characters).
\<close>

definition HasPrefix :: "string \<Rightarrow> string \<Rightarrow> bool" where
  \<comment> \<open>\<open>strings.HasPrefix(s, prefix)\<close>\<close>
  "HasPrefix s p = (length p \<le> length s \<and> take (length p) s = p)"

fun Contains :: "string \<Rightarrow> string \<Rightarrow> bool" where
  \<comment> \<open>\<open>strings.Contains(s, substr)\<close>: \<open>substr\<close> occurs at some position of \<open>s\<close>\<close>
  "Contains [] sub = (sub = [])"
| "Contains (c # s) sub = (HasPrefix (c # s) sub \<or> Contains s sub)"

definition Count :: "string \<Rightarrow> char \<Rightarrow> nat" where
  \<comment> \<open>\<open>strings.Count(s, sep)\<close> for a separator of one byte\<close>
  "Count s c = count_list s c"

section \<open>Data model\<close>

definition Version_const :: string where
  "Version_const = ''2.1.0''"

definition ProviderAnthropic :: string where "ProviderAnthropic = ''anthropic''"
definition ProviderZAI :: string where "ProviderZAI = ''zai''"
definition ProviderCustom :: string where "ProviderCustom = ''custom''"
definition ProviderUnknown :: string where "ProviderUnknown = ''unknown''"

text \<open>
  A Go \<open>map[string]string\<close> is an association list whose keys are distinct, or \<open>None\<close>
  for the nil map. Reading a nil map behaves as reading the empty map.
\<close>

type_synonym envmap = "(string \<times> string) list option"

definition len :: "envmap \<Rightarrow> nat" where
  "len m = (case m of None \<Rightarrow> 0 | Some al \<Rightarrow> length al)"

definition index :: "envmap \<Rightarrow> string \<Rightarrow> string" where
  \<comment> \<open>\<open>m[k]\<close>: the zero value \<open>""\<close> when the key is absent\<close>
  "index m k = (case m of None \<Rightarrow> [] | Some al \<Rightarrow> (case map_of al k of None \<Rightarrow> [] | Some v \<Rightarrow> v))"

definition delete_key :: "string \<Rightarrow> envmap \<Rightarrow> envmap" where
  \<comment> \<open>\<open>delete(m, k)\<close>: no effect on a nil map\<close>
  "delete_key k m = map_option (AList.delete k) m"

record Config =
  Env :: envmap

record BackupMetadata =
  Provider :: string
  CreatedAt :: string
  Version :: string

record BackupConfig =
  Metadata :: BackupMetadata
  BackupEnv :: envmap

definition zaiEnvKeys :: "string list" where
  "zaiEnvKeys =
    [''ANTHROPIC_BASE_URL'', ''API_TIMEOUT_MS'', ''ANTHROPIC_DEFAULT_OPUS_MODEL'',
     ''ANTHROPIC_DEFAULT_SONNET_MODEL'', ''ANTHROPIC_DEFAULT_HAIKU_MODEL'']"

section \<open>Provider detection\<close>

definition detectProvider :: "Config option \<Rightarrow> string" where
  \<comment> \<open>the argument is a pointer: \<open>None\<close> is nil\<close>
  "detectProvider config =
    (case config of
       None \<Rightarrow> ProviderUnknown
     | Some c \<Rightarrow>
         if len (Env c) = 0 then ProviderUnknown
         else let baseURL = index (Env c) ''ANTHROPIC_BASE_URL'' in
           if Contains baseURL ''z.ai'' then ProviderZAI
           else if baseURL = [] then ProviderAnthropic
           else ProviderCustom)"

definition isAnthropicConfig :: "Config option \<Rightarrow> bool" where
  "isAnthropicConfig config = (detectProvider config = ProviderAnthropic)"

definition isZAIConfig :: "Config option \<Rightarrow> bool" where
  "isZAIConfig config = (detectProvider config = ProviderZAI)"

fun isZAIKey :: "string \<Rightarrow> bool" where
  "isZAIKey key = (key \<in> set zaiEnvKeys)"

section \<open>Token masking and classification\<close>

definition maskToken :: "string \<Rightarrow> string" where
  "maskToken token =
    (if length token \<le> 8 then ''********''
     else take 4 token @ ''...'' @ drop (length token - 4) token)"

definition TokenTypeZAI :: string where "TokenTypeZAI = ''zai_api_key''"
definition TokenTypeAnthropic :: string where "TokenTypeAnthropic = ''anthropic_web''"
definition TokenTypeUnknown :: string where "TokenTypeUnknown = ''unknown''"

definition detectTokenType :: "string \<Rightarrow> string" where
  "detectTokenType token =
    (if token = [] then TokenTypeUnknown
     else if HasPrefix token ''sk-'' \<or> HasPrefix token ''zai-'' then TokenTypeZAI
     else if Count token (CHR ''.'') \<ge> 2 \<and> length token > 100 then TokenTypeAnthropic
     else if length token > 200 then TokenTypeAnthropic
     else if length token < 100 then TokenTypeZAI
     else TokenTypeUnknown)"

section \<open>JSON documents and their decoding\<close>

text \<open>
  The bytes of a file are not modelled: a file holds either a JSON text, given by the value
  it denotes (object members in textual order, duplicate keys possible), or bytes that are
  no JSON text. The strings of such a value are the strings that the decoder of
  \<open>encoding/json\<close> yields for the text. A string of the program is a sequence of
  arbitrary bytes: the encoder writes it coerced to valid UTF-8 (see \<open>toValidUTF8\<close>
  below).
\<close>

datatype json = JNull | JBool bool | JNumber string | JString string
  | JArray "json list" | JObject "(string \<times> json) list"

datatype content = NotJSON | JSON json

datatype error =
    ErrNotExist
  | PathError
  | SyntaxError
  | UnmarshalTypeError
  | EOF
  | ErrorString string
  | Errorf string error

text \<open>
  \<open>json.Unmarshal\<close> matches an object key with a struct field by the exact name or,
  failing that, by the name folded: ASCII letters to upper case, and the two runes
  U+017F and U+212A (bytes \<open>C5 BF\<close> and \<open>E2 84 AA\<close>) to \<open>S\<close> and \<open>K\<close>. Every other
  non-ASCII byte stays, so such a key equals no folded field name.
\<close>

definition upper :: "char \<Rightarrow> char" where
  "upper c =
    (case map_of (zip ''abcdefghijklmnopqrstuvwxyz'' ''ABCDEFGHIJKLMNOPQRSTUVWXYZ'') c of
       None \<Rightarrow> c
     | Some u \<Rightarrow> u)"

definition lower :: "char \<Rightarrow> char" where
  "lower c =
    (case map_of (zip ''ABCDEFGHIJKLMNOPQRSTUVWXYZ'' ''abcdefghijklmnopqrstuvwxyz'') c of
       None \<Rightarrow> c
     | Some l \<Rightarrow> l)"

fun foldName :: "string \<Rightarrow> string" where
  "foldName [] = []"
| "foldName (c # cs) =
    (if c = CHR 0xC5 \<and> take 1 cs = [CHR 0xBF] then CHR ''S'' # foldName (drop 1 cs)
     else if c = CHR 0xE2 \<and> take 2 cs = [CHR 0x84, CHR 0xAA] then CHR ''K'' # foldName (drop 2 cs)
     else upper c # foldName cs)"

definition matches :: "string \<Rightarrow> string \<Rightarrow> bool" where
  "matches field key = (key = field \<or> foldName key = foldName field)"

text \<open>
  A value that does not fit its target makes \<open>Unmarshal\<close> return an
  \<open>UnmarshalTypeError\<close> after decoding the rest; the callers drop the partly decoded
  value, so the decoders return the error alone. \<open>null\<close> leaves a string or a struct as
  it is and sets a map to nil. Unknown keys are skipped.
\<close>

definition decodeString :: "json \<Rightarrow> string \<Rightarrow> error + string" where
  "decodeString j old =
    (case j of JString s \<Rightarrow> Inr s | JNull \<Rightarrow> Inr old | _ \<Rightarrow> Inl UnmarshalTypeError)"

fun decodeMapMembers :: "(string \<times> json) list \<Rightarrow> (string \<times> string) list \<Rightarrow> error + (string \<times> string) list" where
  "decodeMapMembers [] m = Inr m"
| "decodeMapMembers ((k, v) # kvs) m =
    (case decodeString v [] of
       Inl e \<Rightarrow> Inl e
     | Inr s \<Rightarrow> decodeMapMembers kvs (AList.update k s m))"

definition decodeMap :: "json \<Rightarrow> envmap \<Rightarrow> error + envmap" where
  "decodeMap j old =
    (case j of
       JNull \<Rightarrow> Inr None
     | JObject kvs \<Rightarrow>
         (case decodeMapMembers kvs (case old of None \<Rightarrow> [] | Some m \<Rightarrow> m) of
            Inl e \<Rightarrow> Inl e
          | Inr m \<Rightarrow> Inr (Some m))
     | _ \<Rightarrow> Inl UnmarshalTypeError)"

fun decodeConfigMembers :: "(string \<times> json) list \<Rightarrow> Config \<Rightarrow> error + Config" where
  "decodeConfigMembers [] c = Inr c"
| "decodeConfigMembers ((k, v) # kvs) c =
    (if matches ''env'' k then
       (case decodeMap v (Env c) of
          Inl e \<Rightarrow> Inl e
        | Inr m \<Rightarrow> decodeConfigMembers kvs (c\<lparr>Env := m\<rparr>))
     else decodeConfigMembers kvs c)"

definition UnmarshalConfig :: "content \<Rightarrow> error + Config" where
  \<comment> \<open>\<open>var config Config; json.Unmarshal(data, &config)\<close>\<close>
  "UnmarshalConfig data =
    (case data of
       NotJSON \<Rightarrow> Inl SyntaxError
     | JSON j \<Rightarrow>
         (case j of
            JObject kvs \<Rightarrow> decodeConfigMembers kvs \<lparr>Env = None\<rparr>
          | JNull \<Rightarrow> Inr \<lparr>Env = None\<rparr>
          | _ \<Rightarrow> Inl UnmarshalTypeError))"

fun decodeMetadataMembers :: "(string \<times> json) list \<Rightarrow> BackupMetadata \<Rightarrow> error + BackupMetadata" where
  "decodeMetadataMembers [] m = Inr m"
| "decodeMetadataMembers ((k, v) # kvs) m =
    (if matches ''provider'' k then
       (case decodeString v (Provider m) of
          Inl e \<Rightarrow> Inl e
        | Inr s \<Rightarrow> decodeMetadataMembers kvs (m\<lparr>Provider := s\<rparr>))
     else if matches ''created_at'' k then
       (case decodeString v (CreatedAt m) of
          Inl e \<Rightarrow> Inl e
        | Inr s \<Rightarrow> decodeMetadataMembers kvs (m\<lparr>CreatedAt := s\<rparr>))
     else if matches ''version'' k then
       (case decodeString v (Version m) of
          Inl e \<Rightarrow> Inl e
        | Inr s \<Rightarrow> decodeMetadataMembers kvs (m\<lparr>Version := s\<rparr>))
     else decodeMetadataMembers kvs m)"

definition decodeMetadata :: "json \<Rightarrow> BackupMetadata \<Rightarrow> error + BackupMetadata" where
  "decodeMetadata j old =
    (case j of
       JNull \<Rightarrow> Inr old
     | JObject kvs \<Rightarrow> decodeMetadataMembers kvs old
     | _ \<Rightarrow> Inl UnmarshalTypeError)"

fun decodeBackupMembers :: "(string \<times> json) list \<Rightarrow> BackupConfig \<Rightarrow> error + BackupConfig" where
  "decodeBackupMembers [] b = Inr b"
| "decodeBackupMembers ((k, v) # kvs) b =
    (if matches ''_metadata'' k then
       (case decodeMetadata v (Metadata b) of
          Inl e \<Rightarrow> Inl e
        | Inr m \<Rightarrow> decodeBackupMembers kvs (b\<lparr>Metadata := m\<rparr>))
     else if matches ''env'' k then
       (case decodeMap v (BackupEnv b) of
          Inl e \<Rightarrow> Inl e
        | Inr m \<Rightarrow> decodeBackupMembers kvs (b\<lparr>BackupEnv := m\<rparr>))
     else decodeBackupMembers kvs b)"

definition zeroBackup :: BackupConfig where
  "zeroBackup = \<lparr>Metadata = \<lparr>Provider = [], CreatedAt = [], Version = []\<rparr>, BackupEnv = None\<rparr>"

definition UnmarshalBackup :: "content \<Rightarrow> error + BackupConfig" where
  \<comment> \<open>\<open>var backup BackupConfig; json.Unmarshal(data, &backup)\<close>\<close>
  "UnmarshalBackup data =
    (case data of
       NotJSON \<Rightarrow> Inl SyntaxError
     | JSON j \<Rightarrow>
         (case j of
            JObject kvs \<Rightarrow> decodeBackupMembers kvs zeroBackup
          | JNull \<Rightarrow> Inr zeroBackup
          | _ \<Rightarrow> Inl UnmarshalTypeError))"

section \<open>JSON encoding\<close>

text \<open>
  The encoder writes a string byte by byte while the bytes are ASCII, and otherwise asks
  \<open>utf8.DecodeRuneInString\<close> for the rune at the head of the rest. \<open>runeWidth s\<close> is the
  size that \<open>DecodeRuneInString\<close> returns for a well-formed encoding at the head of \<open>s\<close>
  (tables \<open>first\<close> and \<open>acceptRanges\<close> of \<open>unicode/utf8\<close>), and \<open>0\<close> where it returns
  \<open>RuneError\<close> with size 1 (a byte that starts no well-formed encoding) or size 0 (the
  empty string).
\<close>

definition byte :: "char \<Rightarrow> nat" where
  "byte c = of_char c"

definition cont :: "char \<Rightarrow> bool" where
  \<comment> \<open>a continuation byte: \<open>locb \<le> b \<and> b \<le> hicb\<close>\<close>
  "cont c \<longleftrightarrow> 0x80 \<le> byte c \<and> byte c \<le> 0xBF"

definition runeWidth :: "string \<Rightarrow> nat" where
  "runeWidth s =
    (case s of
       [] \<Rightarrow> 0
     | b0 # r \<Rightarrow>
         let x = byte b0 in
         if x < 0x80 then 1
         else if 0xC2 \<le> x \<and> x \<le> 0xDF then
           (case r of
              b1 # _ \<Rightarrow> if cont b1 then 2 else 0
            | _ \<Rightarrow> 0)
         else if 0xE0 \<le> x \<and> x \<le> 0xEF then
           (case r of
              b1 # b2 # _ \<Rightarrow>
                if (if x = 0xE0 then 0xA0 else 0x80) \<le> byte b1
                   \<and> byte b1 \<le> (if x = 0xED then 0x9F else 0xBF) \<and> cont b2
                then 3 else 0
            | _ \<Rightarrow> 0)
         else if 0xF0 \<le> x \<and> x \<le> 0xF4 then
           (case r of
              b1 # b2 # b3 # _ \<Rightarrow>
                if (if x = 0xF0 then 0x90 else 0x80) \<le> byte b1
                   \<and> byte b1 \<le> (if x = 0xF4 then 0x8F else 0xBF) \<and> cont b2 \<and> cont b3
                then 4 else 0
            | _ \<Rightarrow> 0)
         else 0)"

text \<open>
  The string that a JSON string written by the encoder denotes: every byte that starts no
  well-formed encoding is written as the escape of U+FFFD, which reads back as the three
  bytes \<open>EF BF BD\<close>; every other byte is written so that it reads back as itself (literally or
  as an escape).
\<close>

function toValidUTF8 :: "string \<Rightarrow> string" where
  "toValidUTF8 s =
    (if s = [] then []
     else if runeWidth s = 0 then [CHR 0xEF, CHR 0xBF, CHR 0xBD] @ toValidUTF8 (drop 1 s)
     else take (runeWidth s) s @ toValidUTF8 (drop (runeWidth s) s))"
  by pat_completeness auto
termination
  by (relation "measure length") auto

declare toValidUTF8.simps [simp del]

text \<open>A string is valid UTF-8 when it is a sequence of well-formed encodings.\<close>

function validUTF8 :: "string \<Rightarrow> bool" where
  "validUTF8 s =
    (if s = [] then True
     else if runeWidth s = 0 then False
     else validUTF8 (drop (runeWidth s) s))"
  by pat_completeness auto
termination
  by (relation "measure length") auto

declare validUTF8.simps [simp del]

text \<open>\<open>json.MarshalIndent\<close> writes the keys of a map in the sorted order of the keys as they
  are in the map, and a nil map as \<open>null\<close>; it writes every string, key or value, coerced to
  valid UTF-8; on these types it returns no error.\<close>

definition encodeString :: "string \<Rightarrow> json" where
  "encodeString s = JString (toValidUTF8 s)"

definition encodeMap :: "envmap \<Rightarrow> json" where
  "encodeMap m =
    (case m of
       None \<Rightarrow> JNull
     | Some al \<Rightarrow>
         JObject (map (\<lambda>(k, v). (toValidUTF8 k, encodeString v)) (sort_key fst al)))"

definition MarshalConfig :: "Config \<Rightarrow> content" where
  "MarshalConfig c = JSON (JObject [(''env'', encodeMap (Env c))])"

definition MarshalBackup :: "BackupConfig \<Rightarrow> content" where
  "MarshalBackup b =
    JSON (JObject
      [(''_metadata'', JObject
          [(''provider'', encodeString (Provider (Metadata b))),
           (''created_at'', encodeString (CreatedAt (Metadata b))),
           (''version'', encodeString (Version (Metadata b)))]),
       (''env'', encodeMap (BackupEnv b))])"

section \<open>The world: files, failures, inputs and output\<close>

datatype path = SettingsFile | BackupFile | Tmp path
  \<comment> \<open>\<open>app.settingsFile\<close>, \<open>app.backupFile\<close>, and \<open>filename + ".tmp"\<close>\<close>

text \<open>
  A printed line is its format string, without the leading emoji and the colour, and the
  arguments of \<open>Printf\<close>. Standard output and standard error are one list.
\<close>

datatype arg = Str string | Err error | Num nat

datatype msg = Print string "arg list"

text \<open>
  The world of one run. \<open>files\<close> holds the JSON files of the configuration directory and
  their temporary siblings; the token file \<open>.zai_token\<close> holds one line of text and is kept
  apart. A failing file operation is a property of the world: reading a path in
  \<open>unreadable\<close>, writing a path in \<open>unwritable\<close> and renaming onto a path in
  \<open>unrenamable\<close> fail and change nothing. \<open>now\<close> is \<open>time.Now().Format(time.RFC3339)\<close>.
\<close>

record world =
  files :: "path \<Rightarrow> content option"
  unreadable :: "path set"
  unwritable :: "path set"
  unrenamable :: "path set"
  mkdir_fails :: bool
  token_file :: "string option"
  token_unreadable :: bool
  token_unwritable :: bool
  env_ZAI_AUTH_TOKEN :: string
  stdin :: string
  now :: string
  out :: "msg list"

definition sayf :: "string \<Rightarrow> arg list \<Rightarrow> world \<Rightarrow> world" where
  \<comment> \<open>\<open>Printf\<close>\<close>
  "sayf fmt args w = w\<lparr>out := out w @ [Print fmt args]\<rparr>"

definition say :: "string \<Rightarrow> world \<Rightarrow> world" where
  \<comment> \<open>\<open>Println\<close>\<close>
  "say line w = sayf line [] w"

definition says :: "string list \<Rightarrow> world \<Rightarrow> world" where
  \<comment> \<open>several \<open>Println\<close> in a row, first line first\<close>
  "says lines w = fold say lines w"

definition ReadFile :: "path \<Rightarrow> world \<Rightarrow> error + content" where
  "ReadFile p w =
    (case files w p of
       None \<Rightarrow> Inl ErrNotExist
     | Some data \<Rightarrow> if p \<in> unreadable w then Inl PathError else Inr data)"

definition WriteFile :: "path \<Rightarrow> content \<Rightarrow> world \<Rightarrow> error option \<times> world" where
  "WriteFile p data w =
    (if p \<in> unwritable w then (Some PathError, w)
     else (None, w\<lparr>files := (files w)(p \<mapsto> data)\<rparr>))"

definition Rename :: "path \<Rightarrow> path \<Rightarrow> world \<Rightarrow> error option \<times> world" where
  "Rename src dst w =
    (if dst \<in> unrenamable w then (Some PathError, w)
     else (None, w\<lparr>files := (files w)(dst := files w src, src := None)\<rparr>))"

definition Remove :: "path \<Rightarrow> world \<Rightarrow> world" where
  "Remove p w = w\<lparr>files := (files w)(p := None)\<rparr>"

section \<open>Reading the terminal\<close>

definition newline :: char where
  "newline = CHR 0x0A"

definition ReadString :: "string \<Rightarrow> (string \<times> error option) \<times> string" where
  \<comment> \<open>\<open>reader.ReadString('\n')\<close> on the input that is left: the line with its newline, or
      what is left and \<open>io.EOF\<close>\<close>
  "ReadString inp =
    (if newline \<in> set inp
     then ((takeWhile (\<lambda>c. c \<noteq> newline) inp @ [newline], None),
           drop 1 (dropWhile (\<lambda>c. c \<noteq> newline) inp))
     else ((inp, Some EOF), []))"

definition spaces :: "string list" where
  \<comment> \<open>the UTF-8 encodings of the runes of \<open>unicode.IsSpace\<close>\<close>
  "spaces =
    [[CHR 0x09], [CHR 0x0A], [CHR 0x0B], [CHR 0x0C], [CHR 0x0D], [CHR 0x20],
     [CHR 0xC2, CHR 0x85], [CHR 0xC2, CHR 0xA0], [CHR 0xE1, CHR 0x9A, CHR 0x80],
     [CHR 0xE2, CHR 0x80, CHR 0x80], [CHR 0xE2, CHR 0x80, CHR 0x81],
     [CHR 0xE2, CHR 0x80, CHR 0x82], [CHR 0xE2, CHR 0x80, CHR 0x83],
     [CHR 0xE2, CHR 0x80, CHR 0x84], [CHR 0xE2, CHR 0x80, CHR 0x85],
     [CHR 0xE2, CHR 0x80, CHR 0x86], [CHR 0xE2, CHR 0x80, CHR 0x87],
     [CHR 0xE2, CHR 0x80, CHR 0x88], [CHR 0xE2, CHR 0x80, CHR 0x89],
     [CHR 0xE2, CHR 0x80, CHR 0x8A], [CHR 0xE2, CHR 0x80, CHR 0xA8],
     [CHR 0xE2, CHR 0x80, CHR 0xA9], [CHR 0xE2, CHR 0x80, CHR 0xAF],
     [CHR 0xE2, CHR 0x81, CHR 0x9F], [CHR 0xE3, CHR 0x80, CHR 0x80]]"

definition leadingWidth :: "string list \<Rightarrow> string \<Rightarrow> nat" where
  "leadingWidth ps s = (case find (HasPrefix s) ps of None \<Rightarrow> 0 | Some p \<Rightarrow> length p)"

function trimLeading :: "string list \<Rightarrow> string \<Rightarrow> string" where
  "trimLeading ps s =
    (if leadingWidth ps s = 0 then s else trimLeading ps (drop (leadingWidth ps s) s))"
  by pat_completeness auto
termination
proof (relation "measure (\<lambda>(ps, s). length s)")
  show "wf (measure (\<lambda>(ps, s). length s))" by simp
next
  fix ps :: "string list" and s :: string
  assume pos: "leadingWidth ps s \<noteq> 0"
  then obtain p where "find (HasPrefix s) ps = Some p" and "p \<noteq> []"
    by (auto simp: leadingWidth_def split: option.splits)
  then have "HasPrefix s p" and "p \<noteq> []"
    by (auto simp: find_Some_iff)
  then have "s \<noteq> []"
    by (auto simp: HasPrefix_def)
  with pos show "((ps, drop (leadingWidth ps s) s), (ps, s)) \<in> measure (\<lambda>(ps, s). length s)"
    by simp
qed

declare trimLeading.simps [simp del]

definition TrimSpace :: "string \<Rightarrow> string" where
  \<comment> \<open>\<open>strings.TrimSpace\<close>: leading and trailing white space runes removed\<close>
  "TrimSpace s = rev (trimLeading (map rev spaces) (rev (trimLeading spaces s)))"

definition ToLower :: "string \<Rightarrow> string" where
  \<comment> \<open>\<open>strings.ToLower\<close> on ASCII letters; no other rune maps to a letter of \<open>y\<close> or \<open>yes\<close>\<close>
  "ToLower s = map lower s"

section \<open>Loading and saving\<close>

definition loadConfig :: "path \<Rightarrow> world \<Rightarrow> error + Config" where
  "loadConfig filename w =
    (case ReadFile filename w of
       Inl e \<Rightarrow> if e = ErrNotExist then Inr \<lparr>Env = Some []\<rparr> else Inl e
     | Inr data \<Rightarrow>
         (case UnmarshalConfig data of
            Inl e \<Rightarrow> Inl (Errorf ''failed to parse config'' e)
          | Inr config \<Rightarrow>
              Inr (if Env config = None then config\<lparr>Env := Some []\<rparr> else config)))"

definition saveConfigAtomic :: "path \<Rightarrow> Config \<Rightarrow> world \<Rightarrow> error option \<times> world" where
  "saveConfigAtomic filename config w =
    (if mkdir_fails w then (Some (Errorf ''failed to create directory'' PathError), w)
     else
       let data = MarshalConfig config; tempFile = Tmp filename in
       case WriteFile tempFile data w of
         (Some e, w1) \<Rightarrow> (Some (Errorf ''failed to write temp config'' e), w1)
       | (None, w1) \<Rightarrow>
           (case Rename tempFile filename w1 of
              (Some e, w2) \<Rightarrow> (Some (Errorf ''failed to save config'' e), Remove tempFile w2)
            | (None, w2) \<Rightarrow> (None, w2)))"

section \<open>The backup slot\<close>

definition hasValidAnthropicBackup :: "world \<Rightarrow> bool \<times> BackupConfig option \<times> error option" where
  "hasValidAnthropicBackup w =
    (if files w BackupFile = None then (False, None, None)
     else
       case ReadFile BackupFile w of
         Inl e \<Rightarrow> (False, None, Some e)
       | Inr data \<Rightarrow>
           (case UnmarshalBackup data of
              Inl e \<Rightarrow>
                (case UnmarshalConfig data of
                   Inr oldConfig \<Rightarrow>
                     (True,
                      Some \<lparr>Metadata = \<lparr>Provider = ProviderAnthropic, CreatedAt = [], Version = []\<rparr>,
                            BackupEnv = Env oldConfig\<rparr>,
                      None)
                 | Inl _ \<Rightarrow> (False, None, Some e))
            | Inr backup \<Rightarrow>
                if Provider (Metadata backup) \<noteq> ProviderAnthropic then (False, Some backup, None)
                else (True, Some backup, None)))"

definition createBackupWithMetadata :: "Config \<Rightarrow> string \<Rightarrow> world \<Rightarrow> error option \<times> world" where
  "createBackupWithMetadata config provider w =
    (let backup = \<lparr>Metadata = \<lparr>Provider = provider, CreatedAt = now w, Version = Version_const\<rparr>,
                   BackupEnv = Env config\<rparr>;
         data = MarshalBackup backup;
         tempFile = Tmp BackupFile
     in case WriteFile tempFile data w of
          (Some e, w1) \<Rightarrow> (Some (Errorf ''failed to write temp backup'' e), w1)
        | (None, w1) \<Rightarrow>
            (case Rename tempFile BackupFile w1 of
               (Some e, w2) \<Rightarrow> (Some (Errorf ''failed to save backup'' e), Remove tempFile w2)
             | (None, w2) \<Rightarrow> (None, w2)))"

section \<open>Obtaining and checking the credential\<close>

definition promptInteractive :: "world \<Rightarrow> (string \<times> error option) \<times> world" where
  \<comment> \<open>the part of \<open>promptForToken\<close> from \<open>// Prompt user for token\<close> on\<close>
  "promptInteractive w0 =
    (let w1 = sayf ''> '' []
                (says [''No API token found'', [], ''Please enter your Z.AI API token:''] w0);
         ((token, err), rest) = ReadString (stdin w1);
         w2 = w1\<lparr>stdin := rest\<rparr>
     in case err of
          Some e \<Rightarrow> (([], Some (Errorf ''failed to read token'' e)), w2)
        | None \<Rightarrow>
            let token = TrimSpace token in
            if token = [] then (([], Some (ErrorString ''token cannot be empty'')), w2)
            else
              let w3 = sayf ''> '' [] (say (newline # ''Save token for future use? (y/n)'') w2);
                  ((answer, _), rest') = ReadString (stdin w3);
                  w4 = w3\<lparr>stdin := rest'\<rparr>;
                  answer = TrimSpace (ToLower answer)
              in if answer = ''y'' \<or> answer = ''yes'' then
                   (if token_unwritable w4
                    then ((token, None), sayf ''Failed to save token: %v'' [Err PathError] w4)
                    else ((token, None),
                          say ''Token saved successfully'' (w4\<lparr>token_file := Some token\<rparr>)))
                 else ((token, None), w4))"

definition promptForToken :: "world \<Rightarrow> (string \<times> error option) \<times> world" where
  "promptForToken w =
    (if env_ZAI_AUTH_TOKEN w \<noteq> [] then
       ((env_ZAI_AUTH_TOKEN w, None),
        say ''Using token from ZAI_AUTH_TOKEN environment variable'' w)
     else
       case (if token_unreadable w then None else token_file w) of
         Some data \<Rightarrow>
           let token = TrimSpace data in
           if token \<noteq> [] then ((token, None), say ''Using token from saved token file'' w)
           else promptInteractive w
       | None \<Rightarrow> promptInteractive w)"

definition validateTokenForProvider :: "string \<Rightarrow> string \<Rightarrow> world \<Rightarrow> bool \<times> world" where
  "validateTokenForProvider token provider w =
    (let tokenType = detectTokenType token in
     if provider = ProviderZAI \<and> tokenType = TokenTypeAnthropic then
       (True, says [''Warning: Token looks like an Anthropic web login token'',
                    ''   Z.AI typically uses API keys (sk-xxx or zai-xxx format)''] w)
     else if provider = ProviderAnthropic \<and> tokenType = TokenTypeZAI then
       (True, says [''Warning: Token looks like an API key, not a web login token'',
                    ''   Anthropic web login uses longer JWT-style tokens''] w)
     else (True, w))"

section \<open>Switching\<close>

definition report :: "string \<Rightarrow> string list \<Rightarrow> error option \<times> world \<Rightarrow> error option \<times> world" where
  \<comment> \<open>the end of a switch:
      \<open>if err != nil { return fmt.Errorf("<wrap>: %w", err) }\<close>, then the closing lines
      and \<open>return nil\<close>\<close>
  "report wrap lines r =
    (case r of
       (Some e, w) \<Rightarrow> (Some (Errorf wrap e), w)
     | (None, w) \<Rightarrow> (None, says lines w))"

definition switchToAnthropic :: "world \<Rightarrow> error option \<times> world" where
  "switchToAnthropic w0 =
    (let w1 = say ''Switching to Anthropic API...'' w0;
         currentConfig = loadConfig SettingsFile w1
     in if (case currentConfig of Inl err \<Rightarrow> False | Inr c \<Rightarrow> isAnthropicConfig (Some c)) then
          (None, says [''Already using Anthropic configuration'',
                       ''   Use --status to check current settings''] w1)
        else
          let (hasBackup, backup, err) = hasValidAnthropicBackup w1;
              w2 = (case err of
                      None \<Rightarrow> w1
                    | Some e \<Rightarrow> sayf ''Failed to read backup: %v'' [Err e] w1)
          in case (if hasBackup then backup else None) of
               None \<Rightarrow>
                 let w3 = says [''No valid Anthropic backup found!'',
                                ''Cannot restore Anthropic web login token without backup.'',
                                ''   You may need to re-login to Claude Code.'', []] w2
                 in report ''failed to save config''
                      [''Created empty configuration (re-login required)'']
                      (saveConfigAtomic SettingsFile \<lparr>Env = Some []\<rparr> w3)
             | Some b \<Rightarrow>
                 let w3 = (if CreatedAt (Metadata b) \<noteq> []
                           then sayf ''Restoring from backup created at: %s''
                                  [Str (CreatedAt (Metadata b))] w2
                           else w2);
                     restoredConfig = \<lparr>Env = fold delete_key zaiEnvKeys (BackupEnv b)\<rparr>
                 in report ''failed to restore config''
                      [''Anthropic configuration restored from backup'',
                       ''   Web login token has been restored'']
                      (saveConfigAtomic SettingsFile restoredConfig w3))"

definition zaiConfig :: "string \<Rightarrow> Config" where
  \<comment> \<open>the map literal of \<open>newConfig\<close>\<close>
  "zaiConfig token =
    \<lparr>Env = Some
      [(''ANTHROPIC_AUTH_TOKEN'', token),
       (''ANTHROPIC_BASE_URL'', ''https://api.z.ai/api/anthropic''),
       (''API_TIMEOUT_MS'', ''3000000''),
       (''ANTHROPIC_DEFAULT_OPUS_MODEL'', ''GLM-4.6''),
       (''ANTHROPIC_DEFAULT_SONNET_MODEL'', ''GLM-4.6''),
       (''ANTHROPIC_DEFAULT_HAIKU_MODEL'', ''GLM-4.5-Air'')]\<rparr>"

definition applyZAI :: "world \<Rightarrow> error option \<times> world" where
  \<comment> \<open>the part of \<open>switchToZAI\<close> from \<open>// Get Z.AI API token\<close> on\<close>
  "applyZAI w =
    (case promptForToken w of
       ((token, Some e), w1) \<Rightarrow> (Some e, w1)
     | ((token, None), w1) \<Rightarrow>
         let (ok, w2) = validateTokenForProvider token ProviderZAI w1;
             newConfig = zaiConfig token
         in report ''failed to save Z.AI configuration''
              [''Z.AI configuration applied successfully'', [],
               ''To switch back to Anthropic: claude-switch --anthropic'']
              (saveConfigAtomic SettingsFile newConfig w2))"

definition switchToZAI :: "world \<Rightarrow> error option \<times> world" where
  "switchToZAI w0 =
    (let w1 = say ''Switching to Z.AI API...'' w0 in
     case loadConfig SettingsFile w1 of
       Inl e \<Rightarrow> (Some (Errorf ''failed to load config'' e), w1)
     | Inr config \<Rightarrow>
         if isZAIConfig (Some config) then
           (None, says [''Already using Z.AI configuration'',
                        ''   Use --status to check current settings''] w1)
         else
           let currentProvider = detectProvider (Some config) in
           if currentProvider = ProviderAnthropic \<and> len (Env config) > 0 then
             let (hasBackup, existingBackup, err) = hasValidAnthropicBackup w1;
                 w2 = (case err of
                         None \<Rightarrow> w1
                       | Some e \<Rightarrow> sayf ''Failed to check existing backup: %v'' [Err e] w1)
             in (case (if hasBackup then existingBackup else None) of
                   Some b \<Rightarrow>
                     let w3 = say ''Existing Anthropic backup found (preserving web login token)'' w2;
                         w4 = (if CreatedAt (Metadata b) \<noteq> []
                               then sayf ''   Backed up at: %s'' [Str (CreatedAt (Metadata b))] w3
                               else w3)
                     in applyZAI w4
                 | None \<Rightarrow>
                     (case createBackupWithMetadata config ProviderAnthropic w2 of
                        (Some e, w3) \<Rightarrow>
                          (Some (Errorf ''failed to backup Anthropic config (web login token)'' e), w3)
                      | (None, w3) \<Rightarrow>
                          applyZAI
                            (say ''Anthropic configuration backed up (web login token saved)'' w3)))
           else if currentProvider = ProviderUnknown then
             let (hasBackup, existingBackup, err) = hasValidAnthropicBackup w1 in
             if hasBackup then applyZAI (say ''Using existing Anthropic backup'' w1)
             else applyZAI (says [''No Anthropic configuration to backup'',
                                  ''   You may need to re-login when switching back''] w1)
           else if currentProvider = ProviderCustom then
             applyZAI (says [''Current config is custom provider - not backing up'',
                             ''   Anthropic backup will be preserved if it exists''] w1)
           else applyZAI w1)"

section \<open>Status\<close>

definition keys :: "envmap \<Rightarrow> string list" where
  "keys m = (case m of None \<Rightarrow> [] | Some al \<Rightarrow> map fst al)"

definition whenever :: "bool \<Rightarrow> (world \<Rightarrow> world) \<Rightarrow> world \<Rightarrow> world" where
  "whenever b f w = (if b then f w else w)"

definition box :: "string \<Rightarrow> world \<Rightarrow> world" where
  \<comment> \<open>the three lines of the provider box, drawn in ASCII, and the empty line after it\<close>
  "box title w = says [''+-----+'', title, ''+-----+'', []] w"

definition statusZAI :: "Config \<Rightarrow> string \<Rightarrow> world \<Rightarrow> world" where
  \<comment> \<open>the Z.AI branch of \<open>showStatus\<close>\<close>
  "statusZAI config baseURL w0 =
    (let w1 = sayf ''  Base URL: %s'' [Str baseURL] (box ''Provider: Z.AI (GLM Models)'' w0);
         sonnet = index (Env config) ''ANTHROPIC_DEFAULT_SONNET_MODEL'';
         w2 = whenever (sonnet \<noteq> []) (sayf ''  Sonnet Model: %s'' [Str sonnet]) w1;
         opus = index (Env config) ''ANTHROPIC_DEFAULT_OPUS_MODEL'';
         w3 = whenever (opus \<noteq> []) (sayf ''  Opus Model: %s'' [Str opus]) w2;
         haiku = index (Env config) ''ANTHROPIC_DEFAULT_HAIKU_MODEL'';
         w4 = whenever (haiku \<noteq> []) (sayf ''  Haiku Model: %s'' [Str haiku]) w3;
         timeout = index (Env config) ''API_TIMEOUT_MS'';
         w5 = whenever (timeout \<noteq> []) (sayf ''  Timeout: %s ms'' [Str timeout]) w4;
         token = index (Env config) ''ANTHROPIC_AUTH_TOKEN''
     in whenever (token \<noteq> [])
          (sayf ''  Auth Token: %s%s''
             [Str (maskToken token),
              Str (if detectTokenType token = TokenTypeZAI then '' (API key)''
                   else if detectTokenType token = TokenTypeAnthropic
                   then '' (web token - unexpected for Z.AI)''
                   else [])]) w5)"

definition statusBackup :: "world \<Rightarrow> world" where
  \<comment> \<open>the part of \<open>showStatus\<close> from \<open>// Check for backup with metadata\<close> on\<close>
  "statusBackup w0 =
    (let (hasBackup, backup, err) = hasValidAnthropicBackup w0;
         w1 = (case (if hasBackup then backup else None) of
                 Some b \<Rightarrow>
                   let w = say ''  Backup: Available (Anthropic)'' w0;
                       w = whenever (CreatedAt (Metadata b) \<noteq> [])
                             (sayf ''     Created: %s'' [Str (CreatedAt (Metadata b))]) w;
                       token = index (BackupEnv b) ''ANTHROPIC_AUTH_TOKEN''
                   in if token \<noteq> [] \<and> detectTokenType token = TokenTypeAnthropic
                      then say ''     Token: Web login token'' w
                      else if token \<noteq> [] \<and> detectTokenType token = TokenTypeZAI
                      then say ''     Token: API key (unexpected)'' w
                      else w
               | None \<Rightarrow>
                   if files w0 BackupFile \<noteq> None then say ''  Backup: Available (unknown format)'' w0
                   else say ''  Backup: Not found'' w0)
     in whenever (token_file w1 \<noteq> None) (say ''  Saved Token: Available'') w1)"

definition showStatus :: "world \<Rightarrow> error option \<times> world" where
  "showStatus w0 =
    (let w1 = says [''Current Configuration Status'', []] w0 in
     case loadConfig SettingsFile w1 of
       Inl e \<Rightarrow> (Some (Errorf ''failed to load config'' e), w1)
     | Inr config \<Rightarrow>
         if len (Env config) = 0 then
           (None, say ''No configuration found (empty or missing)'' w1)
         else
           let baseURL = index (Env config) ''ANTHROPIC_BASE_URL'';
               w2 = (if Contains baseURL ''z.ai'' then statusZAI config baseURL w1
                     else if baseURL = [] then
                       say ''  Base URL: api.anthropic.com (default)''
                         (box ''Provider: Anthropic (Default)'' w1)
                     else
                       sayf ''  Base URL: %s'' [Str baseURL] (box ''Provider: Custom'' w1));
               w3 = say [] w2;
               otherEnvCount =
                 length (filter (\<lambda>key. \<not> isZAIKey key \<and> key \<noteq> ''ANTHROPIC_BASE_URL'')
                           (keys (Env config)));
               w4 = whenever (otherEnvCount > 0)
                      (sayf ''  Other env vars: %d'' [Num otherEnvCount]) w3
           in (None, statusBackup w4))"

section \<open>The command line\<close>

datatype command = CmdAnthropic | CmdZAI | CmdStatus

definition main :: "command \<Rightarrow> world \<Rightarrow> nat \<times> world" where
  \<comment> \<open>the three verbs of \<open>main\<close> that load the settings file; the result is the exit code\<close>
  "main cmd w =
    (case (case cmd of
             CmdAnthropic \<Rightarrow> switchToAnthropic w
           | CmdZAI \<Rightarrow> switchToZAI w
           | CmdStatus \<Rightarrow> showStatus w) of
       (Some e, w') \<Rightarrow> (1, sayf ''Error: %v'' [Err e] w')
     | (None, w') \<Rightarrow> (0, w'))"

section \<open>Notions of the specification\<close>

text \<open>The two token shapes of the specification: a prefix match, and the shape of a
  web-session token (at least two dots and more than 100 bytes, or more than 200 bytes).\<close>

definition apiKeyShaped :: "string \<Rightarrow> bool" where
  "apiKeyShaped t = (prefix ''sk-'' t \<or> prefix ''zai-'' t)"

definition webSessionShaped :: "string \<Rightarrow> bool" where
  "webSessionShaped t = ((count_list t (CHR ''.'') \<ge> 2 \<and> length t > 100) \<or> length t > 200)"

text \<open>
  The credential of the backup slot, read the way \<open>showStatus\<close> reads it: the value of
  \<open>ANTHROPIC_AUTH_TOKEN\<close> in the record that \<open>hasValidAnthropicBackup\<close> returns.
\<close>

definition backupToken :: "world \<Rightarrow> string option" where
  "backupToken w =
    (case hasValidAnthropicBackup w of
       (hasBackup, Some b, err) \<Rightarrow> Some (index (BackupEnv b) ''ANTHROPIC_AUTH_TOKEN'')
     | (hasBackup, None, err) \<Rightarrow> None)"

text \<open>
  Every invocation is a process of its own: it has its own environment variable, terminal
  input and clock, and finds the files as the run before left them.
\<close>

definition nextRun :: "string \<Rightarrow> string \<Rightarrow> string \<Rightarrow> world \<Rightarrow> world" where
  "nextRun env inp t w = w\<lparr>env_ZAI_AUTH_TOKEN := env, stdin := inp, now := t\<rparr>"


text \<open>A world with no file, no failing operation, no credential and no input.\<close>

definition emptyWorld :: world where
  "emptyWorld =
    \<lparr>files = (\<lambda>p. None), unreadable = {}, unwritable = {}, unrenamable = {},
     mkdir_fails = False, token_file = None, token_unreadable = False,
     token_unwritable = False, env_ZAI_AUTH_TOKEN = [], stdin = [],
     now = ''2025-01-01T00:00:00Z'', out = []\<rparr>"

text \<open>The switches of the world that make file operations fail are the same in both worlds.\<close>

definition sameFlags :: "world \<Rightarrow> world \<Rightarrow> bool" where
  "sameFlags w w' \<longleftrightarrow>
     unreadable w' = unreadable w \<and> unwritable w' = unwritable w \<and>
     unrenamable w' = unrenamable w \<and> mkdir_fails w' = mkdir_fails w"

text \<open>The settings file loads and classifies as Anthropic: the test that opens
  \<open>switchToAnthropic\<close>.\<close>

definition alreadyAnthropic :: "world \<Rightarrow> bool" where
  "alreadyAnthropic w =
    (case loadConfig SettingsFile w of Inl e \<Rightarrow> False | Inr c \<Rightarrow> isAnthropicConfig (Some c))"

text \<open>The configuration that \<open>switchToAnthropic\<close> writes when Anthropic is not yet in use:
  the mapping of a valid backup without the Z.AI keys, or the empty mapping.\<close>

definition restoreTarget :: "world \<Rightarrow> Config" where
  "restoreTarget w =
    (case hasValidAnthropicBackup w of
       (hasBackup, Some b, err) \<Rightarrow>
         if hasBackup then \<lparr>Env = fold delete_key zaiEnvKeys (BackupEnv b)\<rparr>
         else \<lparr>Env = Some []\<rparr>
     | (hasBackup, None, err) \<Rightarrow> \<lparr>Env = Some []\<rparr>)"

text \<open>Saving the settings file fails in this world.\<close>

definition settingsSaveFails :: "world \<Rightarrow> bool" where
  "settingsSaveFails w \<longleftrightarrow>
     mkdir_fails w \<or> Tmp SettingsFile \<in> unwritable w \<or> SettingsFile \<in> unrenamable w"

text \<open>Writing the backup file fails in this world.\<close>

definition backupSaveFails :: "world \<Rightarrow> bool" where
  "backupSaveFails w \<longleftrightarrow> Tmp BackupFile \<in> unwritable w \<or> BackupFile \<in> unrenamable w"

text \<open>Both worlds offer \<open>promptForToken\<close> the same: environment variable, token file and
  terminal input.\<close>

definition sameInputs :: "world \<Rightarrow> world \<Rightarrow> bool" where
  "sameInputs w w' \<longleftrightarrow>
     env_ZAI_AUTH_TOKEN w' = env_ZAI_AUTH_TOKEN w \<and> token_file w' = token_file w \<and>
     token_unreadable w' = token_unreadable w \<and> token_unwritable w' = token_unwritable w \<and>
     stdin w' = stdin w"

text \<open>The backup that \<open>switchToZAI\<close> writes for the configuration \<open>config\<close>.\<close>

definition freshBackup :: "Config \<Rightarrow> world \<Rightarrow> content" where
  "freshBackup config w =
    MarshalBackup
      \<lparr>Metadata = \<lparr>Provider = ProviderAnthropic, CreatedAt = now w, Version = Version_const\<rparr>,
       BackupEnv = Env config\<rparr>"

text \<open>The world of \<open>switchToZAI\<close> after its opening line and the check of the backup.\<close>

definition checked :: "error option \<Rightarrow> world \<Rightarrow> world" where
  "checked err w =
    (case err of
       None \<Rightarrow> say ''Switching to Z.AI API...'' w
     | Some e \<Rightarrow> sayf ''Failed to check existing backup: %v'' [Err e]
                  (say ''Switching to Z.AI API...'' w))"

section \<open>Example worlds\<close>

definition webBackup :: BackupConfig where
  "webBackup =
    \<lparr>Metadata = \<lparr>Provider = ProviderAnthropic, CreatedAt = ''2024-12-31T09:00:00Z'',
                  Version = Version_const\<rparr>,
     BackupEnv = Some [(''ANTHROPIC_AUTH_TOKEN'', ''web-session-token'')]\<rparr>"

text \<open>Z.AI is in use and the backup slot holds an Anthropic backup with metadata.\<close>

definition zaiWorld :: world where
  "zaiWorld =
    emptyWorld\<lparr>files := (\<lambda>p. None)
      (SettingsFile \<mapsto> MarshalConfig (zaiConfig ''sk-test1234''),
       BackupFile \<mapsto> MarshalBackup webBackup)\<rparr>"

text \<open>Anthropic is in use with a web-session credential; there is no backup file.\<close>

definition anthropicWorld :: world where
  "anthropicWorld =
    emptyWorld\<lparr>files := (\<lambda>p. None)
      (SettingsFile \<mapsto> MarshalConfig \<lparr>Env = Some [(''ANTHROPIC_AUTH_TOKEN'', ''web-session-token'')]\<rparr>),
      env_ZAI_AUTH_TOKEN := ''sk-test1234''\<rparr>"

text \<open>As before, with a backup file that is no JSON text and a disk that refuses the
  temporary backup file.\<close>

definition stuckWorld :: world where
  "stuckWorld =
    anthropicWorld\<lparr>files := (files anthropicWorld)(BackupFile \<mapsto> NotJSON),
                   unwritable := {Tmp BackupFile}\<rparr>"

text \<open>As \<open>anthropicWorld\<close>, with a backup file that is no JSON text.\<close>

definition staleWorld :: world where
  "staleWorld = anthropicWorld\<lparr>files := (files anthropicWorld)(BackupFile \<mapsto> NotJSON)\<rparr>"

text \<open>Z.AI is in use and the backup file is of the old format: \<open>{"env": {...}}\<close> alone.\<close>

definition legacyDocument :: content where
  "legacyDocument =
    JSON (JObject [(''env'', JObject [(''ANTHROPIC_AUTH_TOKEN'', JString ''web-session-token'')])])"

definition legacyWorld :: world where
  "legacyWorld =
    emptyWorld\<lparr>files := (\<lambda>p. None)
      (SettingsFile \<mapsto> MarshalConfig (zaiConfig ''sk-test1234''),
       BackupFile \<mapsto> legacyDocument)\<rparr>"

text \<open>The settings file is no JSON text; there is no backup file.\<close>

definition brokenWorld :: world where
  "brokenWorld = emptyWorld\<lparr>files := (\<lambda>p. None)(SettingsFile \<mapsto> NotJSON)\<rparr>"

text \<open>An empty configuration directory and a credential in the environment.\<close>

definition freshWorld :: world where
  "freshWorld = emptyWorld\<lparr>env_ZAI_AUTH_TOKEN := ''sk-test1234''\<rparr>"

text \<open>The mapping of a Z.AI configuration as it is read back from the settings file.\<close>

definition zaiMapping :: "string \<Rightarrow> (string \<times> string) list" where
  "zaiMapping t =
        [(''ANTHROPIC_AUTH_TOKEN'', t),
         (''ANTHROPIC_BASE_URL'', ''https://api.z.ai/api/anthropic''),
         (''ANTHROPIC_DEFAULT_HAIKU_MODEL'', ''GLM-4.5-Air''),
         (''ANTHROPIC_DEFAULT_OPUS_MODEL'', ''GLM-4.6''),
         (''ANTHROPIC_DEFAULT_SONNET_MODEL'', ''GLM-4.6''),
         (''API_TIMEOUT_MS'', ''3000000'')]"

text \<open>The keys of a mapping are distinct, as the keys of a Go map are.\<close>

definition distinctKeys :: "envmap \<Rightarrow> bool" where
  "distinctKeys m = (case m of None \<Rightarrow> True | Some al \<Rightarrow> distinct (map fst al))"

text \<open>As \<open>brokenWorld\<close>, with a temporary settings file that cannot be written.\<close>

definition lockedWorld :: world where
  "lockedWorld = brokenWorld\<lparr>unwritable := {Tmp SettingsFile}\<rparr>"

text \<open>An empty configuration directory and, in the environment, a credential with the
  byte \<open>FF\<close>, which is part of no well-formed encoding.\<close>

definition invalidToken :: string where
  "invalidToken = ''sk-'' @ [CHR 0xFF] @ ''test''"

definition invalidTokenWorld :: world where
  "invalidTokenWorld = emptyWorld\<lparr>env_ZAI_AUTH_TOKEN := invalidToken\<rparr>"


section \<open>Properties of the string functions\<close>

lemma HasPrefix_prefix: "HasPrefix s p = prefix p s"
  by (auto simp: HasPrefix_def prefix_def) (metis append_eq_conv_conj)

lemma Contains_sublist: "Contains s sub = sublist sub s"
  by (induction s) (auto simp: HasPrefix_prefix sublist_Cons_right)

lemma Contains_Nil_left [simp]: "Contains [] (c # cs) = False"
  by simp

lemmas Provider_defs = ProviderAnthropic_def ProviderZAI_def ProviderCustom_def ProviderUnknown_def

lemmas TokenType_defs = TokenTypeZAI_def TokenTypeAnthropic_def TokenTypeUnknown_def

lemma index_empty: "len m = 0 \<Longrightarrow> index m k = []"
  by (auto simp: len_def index_def split: option.splits)


section \<open>Properties of the coercion to valid UTF-8\<close>

lemma toValidUTF8_Nil [simp]: "toValidUTF8 [] = []"
  by (simp add: toValidUTF8.simps)

lemma toValidUTF8_ascii_head:
  "byte c < 0x80 \<Longrightarrow> toValidUTF8 (c # cs) = c # toValidUTF8 cs"
  by (subst toValidUTF8.simps) (simp add: runeWidth_def)

lemma toValidUTF8_invalid_head:
  "runeWidth (c # cs) = 0 \<Longrightarrow>
    toValidUTF8 (c # cs) = [CHR 0xEF, CHR 0xBF, CHR 0xBD] @ toValidUTF8 cs"
  by (subst toValidUTF8.simps) simp

text \<open>A string of ASCII bytes is written as it is.\<close>

lemma toValidUTF8_ascii: "\<forall>c\<in>set s. byte c < 0x80 \<Longrightarrow> toValidUTF8 s = s"
  by (induction s) (simp_all add: toValidUTF8_ascii_head)

text \<open>A valid string is written as it is.\<close>

lemma validUTF8_fixed: "validUTF8 s \<Longrightarrow> toValidUTF8 s = s"
proof (induction s rule: toValidUTF8.induct)
  case (1 s)
  show ?case
  proof (cases "s = []")
    case True
    then show ?thesis by simp
  next
    case False
    from "1.prems" False have w: "runeWidth s \<noteq> 0" and v: "validUTF8 (drop (runeWidth s) s)"
      by (simp_all add: validUTF8.simps [of s] split: if_splits)
    have "toValidUTF8 (drop (runeWidth s) s) = drop (runeWidth s) s"
      using "1.IH"(2) [OF False w v] .
    then show ?thesis
      using False w by (subst toValidUTF8.simps) simp
  qed
qed

section \<open>How the operations change the world\<close>

lemma sayf_fields [simp]:
  "files (sayf f a w) = files w" "unreadable (sayf f a w) = unreadable w"
  "unwritable (sayf f a w) = unwritable w" "unrenamable (sayf f a w) = unrenamable w"
  "mkdir_fails (sayf f a w) = mkdir_fails w" "token_file (sayf f a w) = token_file w"
  "token_unreadable (sayf f a w) = token_unreadable w"
  "token_unwritable (sayf f a w) = token_unwritable w"
  "env_ZAI_AUTH_TOKEN (sayf f a w) = env_ZAI_AUTH_TOKEN w" "stdin (sayf f a w) = stdin w"
  "now (sayf f a w) = now w" "out (sayf f a w) = out w @ [Print f a]"
  by (simp_all add: sayf_def)

lemma say_fields [simp]:
  "files (say l w) = files w" "unreadable (say l w) = unreadable w"
  "unwritable (say l w) = unwritable w" "unrenamable (say l w) = unrenamable w"
  "mkdir_fails (say l w) = mkdir_fails w" "token_file (say l w) = token_file w"
  "token_unreadable (say l w) = token_unreadable w"
  "token_unwritable (say l w) = token_unwritable w"
  "env_ZAI_AUTH_TOKEN (say l w) = env_ZAI_AUTH_TOKEN w" "stdin (say l w) = stdin w"
  "now (say l w) = now w" "out (say l w) = out w @ [Print l []]"
  by (simp_all add: say_def)

lemma says_simps [simp]: "says [] w = w" "says (l # ls) w = says ls (say l w)"
  by (simp_all add: says_def)

lemma says_fields [simp]:
  "files (says ls w) = files w" "unreadable (says ls w) = unreadable w"
  "unwritable (says ls w) = unwritable w" "unrenamable (says ls w) = unrenamable w"
  "mkdir_fails (says ls w) = mkdir_fails w" "token_file (says ls w) = token_file w"
  "token_unreadable (says ls w) = token_unreadable w"
  "token_unwritable (says ls w) = token_unwritable w"
  "env_ZAI_AUTH_TOKEN (says ls w) = env_ZAI_AUTH_TOKEN w" "stdin (says ls w) = stdin w"
  "now (says ls w) = now w"
  by (induction ls arbitrary: w, simp_all)+


lemma ReadFile_frame:
  "files w' p = files w p \<Longrightarrow> (p \<in> unreadable w') = (p \<in> unreadable w) \<Longrightarrow>
   ReadFile p w' = ReadFile p w"
  by (simp add: ReadFile_def split: option.splits)

lemma loadConfig_frame:
  "files w' p = files w p \<Longrightarrow> (p \<in> unreadable w') = (p \<in> unreadable w) \<Longrightarrow>
   loadConfig p w' = loadConfig p w"
  using ReadFile_frame [of w' p w] by (simp add: loadConfig_def)

lemma hasValidAnthropicBackup_frame:
  "files w' BackupFile = files w BackupFile \<Longrightarrow>
   (BackupFile \<in> unreadable w') = (BackupFile \<in> unreadable w) \<Longrightarrow>
   hasValidAnthropicBackup w' = hasValidAnthropicBackup w"
  using ReadFile_frame [of w' BackupFile w] by (simp add: hasValidAnthropicBackup_def)

lemma loadConfig_say [simp]:
  "loadConfig p (sayf f a w) = loadConfig p w" "loadConfig p (say l w) = loadConfig p w"
  "loadConfig p (says ls w) = loadConfig p w"
  by (rule loadConfig_frame; simp)+

lemma hasValidAnthropicBackup_say [simp]:
  "hasValidAnthropicBackup (sayf f a w) = hasValidAnthropicBackup w"
  "hasValidAnthropicBackup (say l w) = hasValidAnthropicBackup w"
  "hasValidAnthropicBackup (says ls w) = hasValidAnthropicBackup w"
  by (rule hasValidAnthropicBackup_frame; simp)+

lemma saveConfigAtomic_settings:
  "saveConfigAtomic SettingsFile c w =
    (if mkdir_fails w then (Some (Errorf ''failed to create directory'' PathError), w)
     else if Tmp SettingsFile \<in> unwritable w
       then (Some (Errorf ''failed to write temp config'' PathError), w)
     else if SettingsFile \<in> unrenamable w
       then (Some (Errorf ''failed to save config'' PathError),
             w\<lparr>files := (files w)(Tmp SettingsFile := None)\<rparr>)
     else (None, w\<lparr>files := (files w)(SettingsFile \<mapsto> MarshalConfig c, Tmp SettingsFile := None)\<rparr>))"
  by (simp add: saveConfigAtomic_def WriteFile_def Rename_def Remove_def Let_def)

lemma createBackupWithMetadata_cases:
  "createBackupWithMetadata c p w =
    (if Tmp BackupFile \<in> unwritable w
       then (Some (Errorf ''failed to write temp backup'' PathError), w)
     else if BackupFile \<in> unrenamable w
       then (Some (Errorf ''failed to save backup'' PathError),
             w\<lparr>files := (files w)(Tmp BackupFile := None)\<rparr>)
     else (None, w\<lparr>files := (files w)
             (BackupFile \<mapsto> MarshalBackup
                \<lparr>Metadata = \<lparr>Provider = p, CreatedAt = now w, Version = Version_const\<rparr>,
                 BackupEnv = Env c\<rparr>,
              Tmp BackupFile := None)\<rparr>))"
  by (simp add: createBackupWithMetadata_def WriteFile_def Rename_def Remove_def Let_def)

lemma promptInteractive_fields [simp]:
  "files (snd (promptInteractive w)) = files w"
  "unreadable (snd (promptInteractive w)) = unreadable w"
  "unwritable (snd (promptInteractive w)) = unwritable w"
  "unrenamable (snd (promptInteractive w)) = unrenamable w"
  "mkdir_fails (snd (promptInteractive w)) = mkdir_fails w"
  "now (snd (promptInteractive w)) = now w"
  by (simp_all add: promptInteractive_def Let_def case_prod_beta split: option.split)

lemma promptForToken_fields [simp]:
  "files (snd (promptForToken w)) = files w"
  "unreadable (snd (promptForToken w)) = unreadable w"
  "unwritable (snd (promptForToken w)) = unwritable w"
  "unrenamable (snd (promptForToken w)) = unrenamable w"
  "mkdir_fails (snd (promptForToken w)) = mkdir_fails w"
  "now (snd (promptForToken w)) = now w"
  by (simp_all add: promptForToken_def Let_def split: option.split)

lemma validateTokenForProvider_fields [simp]:
  "files (snd (validateTokenForProvider t p w)) = files w"
  "unreadable (snd (validateTokenForProvider t p w)) = unreadable w"
  "unwritable (snd (validateTokenForProvider t p w)) = unwritable w"
  "unrenamable (snd (validateTokenForProvider t p w)) = unrenamable w"
  "mkdir_fails (snd (validateTokenForProvider t p w)) = mkdir_fails w"
  "now (snd (validateTokenForProvider t p w)) = now w"
  "stdin (snd (validateTokenForProvider t p w)) = stdin w"
  "token_file (snd (validateTokenForProvider t p w)) = token_file w"
  by (simp_all add: validateTokenForProvider_def Let_def)


lemma saveConfigAtomic_fst:
  "fst (saveConfigAtomic SettingsFile c w) = None \<longleftrightarrow> \<not> settingsSaveFails w"
  by (simp add: saveConfigAtomic_settings settingsSaveFails_def)

lemma saveConfigAtomic_fields [simp]:
  "unreadable (snd (saveConfigAtomic SettingsFile c w)) = unreadable w"
  "unwritable (snd (saveConfigAtomic SettingsFile c w)) = unwritable w"
  "unrenamable (snd (saveConfigAtomic SettingsFile c w)) = unrenamable w"
  "mkdir_fails (snd (saveConfigAtomic SettingsFile c w)) = mkdir_fails w"
  "out (snd (saveConfigAtomic SettingsFile c w)) = out w"
  "stdin (snd (saveConfigAtomic SettingsFile c w)) = stdin w"
  "token_file (snd (saveConfigAtomic SettingsFile c w)) = token_file w"
  by (simp_all add: saveConfigAtomic_settings)

lemma saveConfigAtomic_files:
  "files (snd (saveConfigAtomic SettingsFile c w)) =
     (if mkdir_fails w \<or> Tmp SettingsFile \<in> unwritable w then files w
      else if SettingsFile \<in> unrenamable w then (files w)(Tmp SettingsFile := None)
      else (files w)(SettingsFile \<mapsto> MarshalConfig c, Tmp SettingsFile := None))"
  by (simp add: saveConfigAtomic_settings)

lemma report_fst [simp]: "fst (report a ls r) = map_option (Errorf a) (fst r)"
  by (simp add: report_def split: prod.split option.split)

lemma report_fields [simp]:
  "files (snd (report a ls r)) = files (snd r)"
  "unreadable (snd (report a ls r)) = unreadable (snd r)"
  "unwritable (snd (report a ls r)) = unwritable (snd r)"
  "unrenamable (snd (report a ls r)) = unrenamable (snd r)"
  "mkdir_fails (snd (report a ls r)) = mkdir_fails (snd r)"
  "stdin (snd (report a ls r)) = stdin (snd r)"
  "token_file (snd (report a ls r)) = token_file (snd r)"
  by (simp_all add: report_def split: prod.split option.split)


lemma applyZAI_fields [simp]:
  "files (snd (applyZAI w)) BackupFile = files w BackupFile"
  "unreadable (snd (applyZAI w)) = unreadable w"
  "unwritable (snd (applyZAI w)) = unwritable w"
  "unrenamable (snd (applyZAI w)) = unrenamable w"
  "mkdir_fails (snd (applyZAI w)) = mkdir_fails w"
  by (simp_all add: applyZAI_def Let_def case_prod_beta saveConfigAtomic_files
      split: option.split)

lemma switchToAnthropic_already:
  assumes "alreadyAnthropic w"
  shows "switchToAnthropic w =
    (None, says [''Already using Anthropic configuration'',
                 ''   Use --status to check current settings'']
             (say ''Switching to Anthropic API...'' w))"
  using assms unfolding alreadyAnthropic_def switchToAnthropic_def Let_def
  by (simp only: loadConfig_say if_True)

lemma switchToAnthropic_restore:
  assumes "\<not> alreadyAnthropic w"
  shows "\<exists>w3 a ls. files w3 = files w \<and> sameFlags w w3 \<and>
     switchToAnthropic w = report a ls (saveConfigAtomic SettingsFile (restoreTarget w) w3)"
proof -
  obtain hb b err where h: "hasValidAnthropicBackup w = (hb, b, err)"
    by (cases "hasValidAnthropicBackup w") auto
  show ?thesis
  proof (cases "if hb then b else None")
    case None
    then have t: "restoreTarget w = \<lparr>Env = Some []\<rparr>"
      using h by (auto simp: restoreTarget_def split: if_splits option.splits)
    have "switchToAnthropic w =
       report ''failed to save config'' [''Created empty configuration (re-login required)'']
        (saveConfigAtomic SettingsFile (restoreTarget w)
          (says [''No valid Anthropic backup found!'',
                 ''Cannot restore Anthropic web login token without backup.'',
                 ''   You may need to re-login to Claude Code.'', []]
            (case err of
               None \<Rightarrow> say ''Switching to Anthropic API...'' w
             | Some e \<Rightarrow> sayf ''Failed to read backup: %v'' [Err e]
                          (say ''Switching to Anthropic API...'' w))))"
      using assms None h unfolding t alreadyAnthropic_def switchToAnthropic_def Let_def
      by simp
    moreover have "files (says ls (case err of None \<Rightarrow> say x w | Some e \<Rightarrow> sayf y [Err e] (say x w))) = files w"
      and "sameFlags w (says ls (case err of None \<Rightarrow> say x w | Some e \<Rightarrow> sayf y [Err e] (say x w)))"
      for ls x y
      by (simp_all add: sameFlags_def split: option.split)
    ultimately show ?thesis by blast
  next
    case (Some bb)
    then have t: "restoreTarget w = \<lparr>Env = fold delete_key zaiEnvKeys (BackupEnv bb)\<rparr>"
      using h by (auto simp: restoreTarget_def split: if_splits)
    have "switchToAnthropic w =
       report ''failed to restore config''
         [''Anthropic configuration restored from backup'',
          ''   Web login token has been restored'']
        (saveConfigAtomic SettingsFile (restoreTarget w)
          (if CreatedAt (Metadata bb) \<noteq> []
           then sayf ''Restoring from backup created at: %s'' [Str (CreatedAt (Metadata bb))]
             (case err of
               None \<Rightarrow> say ''Switching to Anthropic API...'' w
             | Some e \<Rightarrow> sayf ''Failed to read backup: %v'' [Err e]
                          (say ''Switching to Anthropic API...'' w))
           else (case err of
               None \<Rightarrow> say ''Switching to Anthropic API...'' w
             | Some e \<Rightarrow> sayf ''Failed to read backup: %v'' [Err e]
                          (say ''Switching to Anthropic API...'' w))))"
      using assms Some h unfolding t alreadyAnthropic_def switchToAnthropic_def Let_def
      by simp
    moreover have "files (if c then sayf z q (case err of None \<Rightarrow> say x w | Some e \<Rightarrow> sayf y [Err e] (say x w))
                           else (case err of None \<Rightarrow> say x w | Some e \<Rightarrow> sayf y [Err e] (say x w))) = files w"
      and "sameFlags w (if c then sayf z q (case err of None \<Rightarrow> say x w | Some e \<Rightarrow> sayf y [Err e] (say x w))
                           else (case err of None \<Rightarrow> say x w | Some e \<Rightarrow> sayf y [Err e] (say x w)))"
      for c z q x y
      by (simp_all add: sameFlags_def split: option.split)
    ultimately show ?thesis by blast
  qed
qed

lemma switchToAnthropic_files:
  "files (snd (switchToAnthropic w)) =
     (if alreadyAnthropic w \<or> mkdir_fails w \<or> Tmp SettingsFile \<in> unwritable w then files w
      else if SettingsFile \<in> unrenamable w then (files w)(Tmp SettingsFile := None)
      else (files w)(SettingsFile \<mapsto> MarshalConfig (restoreTarget w), Tmp SettingsFile := None))"
proof (cases "alreadyAnthropic w")
  case True
  then show ?thesis by (simp add: switchToAnthropic_already)
next
  case False
  from switchToAnthropic_restore [OF False] obtain w3 a ls
    where "files w3 = files w" "sameFlags w w3"
      "switchToAnthropic w = report a ls (saveConfigAtomic SettingsFile (restoreTarget w) w3)"
    by blast
  with False show ?thesis
    by (simp add: saveConfigAtomic_files sameFlags_def)
qed

lemma switchToAnthropic_fst:
  "fst (switchToAnthropic w) = None \<longleftrightarrow> alreadyAnthropic w \<or> \<not> settingsSaveFails w"
proof (cases "alreadyAnthropic w")
  case True
  then show ?thesis by (simp add: switchToAnthropic_already)
next
  case False
  from switchToAnthropic_restore [OF False] obtain w3 a ls
    where "files w3 = files w" "sameFlags w w3"
      "switchToAnthropic w = report a ls (saveConfigAtomic SettingsFile (restoreTarget w) w3)"
    by blast
  with False show ?thesis
    by (simp add: saveConfigAtomic_fst) (simp add: settingsSaveFails_def sameFlags_def)
qed

lemma switchToAnthropic_flags [simp]:
  "unreadable (snd (switchToAnthropic w)) = unreadable w"
  "unwritable (snd (switchToAnthropic w)) = unwritable w"
  "unrenamable (snd (switchToAnthropic w)) = unrenamable w"
  "mkdir_fails (snd (switchToAnthropic w)) = mkdir_fails w"
proof -
  have "sameFlags w (snd (switchToAnthropic w))"
  proof (cases "alreadyAnthropic w")
    case True
    then show ?thesis by (simp add: switchToAnthropic_already sameFlags_def)
  next
    case False
    from switchToAnthropic_restore [OF False] obtain w3 a ls
      where "files w3 = files w" "sameFlags w w3"
        "switchToAnthropic w = report a ls (saveConfigAtomic SettingsFile (restoreTarget w) w3)"
      by blast
    then show ?thesis
      by (simp add: sameFlags_def)
  qed
  then show "unreadable (snd (switchToAnthropic w)) = unreadable w"
    "unwritable (snd (switchToAnthropic w)) = unwritable w"
    "unrenamable (snd (switchToAnthropic w)) = unrenamable w"
    "mkdir_fails (snd (switchToAnthropic w)) = mkdir_fails w"
    by (simp_all add: sameFlags_def)
qed

lemma createBackupWithMetadata_fst:
  "fst (createBackupWithMetadata c p w) = None \<longleftrightarrow> \<not> backupSaveFails w"
  by (simp add: createBackupWithMetadata_cases backupSaveFails_def)

lemma createBackupWithMetadata_fields [simp]:
  "unreadable (snd (createBackupWithMetadata c p w)) = unreadable w"
  "unwritable (snd (createBackupWithMetadata c p w)) = unwritable w"
  "unrenamable (snd (createBackupWithMetadata c p w)) = unrenamable w"
  "mkdir_fails (snd (createBackupWithMetadata c p w)) = mkdir_fails w"
  "out (snd (createBackupWithMetadata c p w)) = out w"
  "stdin (snd (createBackupWithMetadata c p w)) = stdin w"
  "token_file (snd (createBackupWithMetadata c p w)) = token_file w"
  "token_unreadable (snd (createBackupWithMetadata c p w)) = token_unreadable w"
  "token_unwritable (snd (createBackupWithMetadata c p w)) = token_unwritable w"
  "env_ZAI_AUTH_TOKEN (snd (createBackupWithMetadata c p w)) = env_ZAI_AUTH_TOKEN w"
  "files (snd (createBackupWithMetadata c p w)) SettingsFile = files w SettingsFile"
  by (simp_all add: createBackupWithMetadata_cases)

lemma createBackupWithMetadata_backup:
  "files (snd (createBackupWithMetadata c ProviderAnthropic w)) BackupFile =
     (if backupSaveFails w then files w BackupFile else Some (freshBackup c w))"
  by (simp add: createBackupWithMetadata_cases backupSaveFails_def freshBackup_def)

text \<open>The branches of switchToZAI.\<close>

lemma switchToZAI_load_error:
  assumes "loadConfig SettingsFile w = Inl e"
  shows "switchToZAI w =
    (Some (Errorf ''failed to load config'' e), say ''Switching to Z.AI API...'' w)"
  using assms by (simp add: switchToZAI_def Let_def)

lemma switchToZAI_already:
  assumes "loadConfig SettingsFile w = Inr config" and "isZAIConfig (Some config)"
  shows "switchToZAI w =
    (None, says [''Already using Z.AI configuration'',
                 ''   Use --status to check current settings'']
             (say ''Switching to Z.AI API...'' w))"
  using assms by (simp add: switchToZAI_def Let_def)

lemma checked_fields [simp]:
  "files (checked err w) = files w" "unreadable (checked err w) = unreadable w"
  "unwritable (checked err w) = unwritable w" "unrenamable (checked err w) = unrenamable w"
  "mkdir_fails (checked err w) = mkdir_fails w" "token_file (checked err w) = token_file w"
  "token_unreadable (checked err w) = token_unreadable w"
  "token_unwritable (checked err w) = token_unwritable w"
  "env_ZAI_AUTH_TOKEN (checked err w) = env_ZAI_AUTH_TOKEN w" "stdin (checked err w) = stdin w"
  "now (checked err w) = now w"
  by (simp_all add: checked_def split: option.split)

lemma out_checked:
  "out (checked err w) =
     out w @ Print ''Switching to Z.AI API...'' [] #
       (case err of None \<Rightarrow> [] | Some e \<Rightarrow> [Print ''Failed to check existing backup: %v'' [Err e]])"
  by (simp add: checked_def split: option.split)

lemma switchToZAI_preserve:
  assumes "loadConfig SettingsFile w = Inr config"
    and "detectProvider (Some config) = ProviderAnthropic"
    and "hasValidAnthropicBackup w = (True, Some b, err)"
  shows "switchToZAI w =
    applyZAI
      ((if CreatedAt (Metadata b) \<noteq> []
        then sayf ''   Backed up at: %s'' [Str (CreatedAt (Metadata b))] else id)
         (say ''Existing Anthropic backup found (preserving web login token)'' (checked err w)))"
proof -
  have "len (Env config) > 0"
    using assms(2) by (auto simp: detectProvider_def Provider_defs split: if_splits)
  then show ?thesis
    using assms
    by (simp add: switchToZAI_def Let_def isZAIConfig_def Provider_defs checked_def
        split: option.split)
qed

lemma switchToZAI_backup:
  assumes "loadConfig SettingsFile w = Inr config"
    and "detectProvider (Some config) = ProviderAnthropic"
    and "hasValidAnthropicBackup w = (hasBackup, backup, err)"
    and "\<not> (hasBackup \<and> backup \<noteq> None)"
  shows "switchToZAI w =
    (case createBackupWithMetadata config ProviderAnthropic (checked err w) of
       (Some e, w3) \<Rightarrow>
         (Some (Errorf ''failed to backup Anthropic config (web login token)'' e), w3)
     | (None, w3) \<Rightarrow>
         applyZAI (say ''Anthropic configuration backed up (web login token saved)'' w3))"
proof -
  have "len (Env config) > 0"
    using assms(2) by (auto simp: detectProvider_def Provider_defs split: if_splits)
  moreover have "(if hasBackup then backup else None) = None"
    using assms(4) by auto
  ultimately show ?thesis
    using assms(1-3)
    by (simp add: switchToZAI_def Let_def isZAIConfig_def Provider_defs checked_def
        split: option.split)
qed

lemma switchToZAI_unknown:
  assumes "loadConfig SettingsFile w = Inr config"
    and "detectProvider (Some config) = ProviderUnknown"
  shows "switchToZAI w =
    applyZAI
      (if fst (hasValidAnthropicBackup w)
       then say ''Using existing Anthropic backup'' (say ''Switching to Z.AI API...'' w)
       else says [''No Anthropic configuration to backup'',
                  ''   You may need to re-login when switching back'']
              (say ''Switching to Z.AI API...'' w))"
  using assms
  by (simp add: switchToZAI_def Let_def isZAIConfig_def Provider_defs case_prod_beta)

lemma switchToZAI_custom:
  assumes "loadConfig SettingsFile w = Inr config"
    and "detectProvider (Some config) = ProviderCustom"
  shows "switchToZAI w =
    applyZAI
      (says [''Current config is custom provider - not backing up'',
             ''   Anthropic backup will be preserved if it exists'']
         (say ''Switching to Z.AI API...'' w))"
  using assms
  by (simp add: switchToZAI_def Let_def isZAIConfig_def Provider_defs)

lemma promptInteractive_inputs:
  assumes "sameInputs w w'"
  shows "fst (promptInteractive w') = fst (promptInteractive w)"
  using assms
  by (simp add: promptInteractive_def Let_def case_prod_beta sameInputs_def split: option.split)

lemma promptForToken_inputs:
  assumes "sameInputs w w'"
  shows "fst (promptForToken w') = fst (promptForToken w)"
  using assms promptInteractive_inputs [OF assms]
  by (simp add: promptForToken_def Let_def sameInputs_def split: option.split)

lemma promptInteractive_nonempty:
  "fst (promptInteractive w) = (t, None) \<Longrightarrow> t \<noteq> []"
  by (auto simp: promptInteractive_def Let_def case_prod_beta split: option.splits if_splits)

lemma promptForToken_nonempty:
  "fst (promptForToken w) = (t, None) \<Longrightarrow> t \<noteq> []"
  by (auto simp: promptForToken_def Let_def split: option.splits if_splits
      dest: promptInteractive_nonempty)

lemma applyZAI_success:
  assumes "applyZAI w = (None, w')"
  shows "\<exists>t. fst (promptForToken w) = (t, None) \<and> \<not> settingsSaveFails w \<and>
    files w' = (files w)(SettingsFile \<mapsto> MarshalConfig (zaiConfig t), Tmp SettingsFile := None)"
proof -
  obtain t e w1 where p: "promptForToken w = ((t, e), w1)"
    by (metis surj_pair)
  have w1: "files w1 = files w" "mkdir_fails w1 = mkdir_fails w"
    "unwritable w1 = unwritable w" "unrenamable w1 = unrenamable w"
    using promptForToken_fields [of w] by (simp_all add: p)
  show ?thesis
  proof (cases e)
    case (Some x)
    with assms p show ?thesis by (simp add: applyZAI_def)
  next
    case None
    let ?r = "saveConfigAtomic SettingsFile (zaiConfig t)
                (snd (validateTokenForProvider t ProviderZAI w1))"
    have eq: "applyZAI w = report ''failed to save Z.AI configuration''
              [''Z.AI configuration applied successfully'', [],
               ''To switch back to Anthropic: claude-switch --anthropic''] ?r"
      using p None by (simp add: applyZAI_def Let_def case_prod_beta)
    have "fst (report ''failed to save Z.AI configuration''
              [''Z.AI configuration applied successfully'', [],
               ''To switch back to Anthropic: claude-switch --anthropic''] ?r) = None"
      using assms eq by simp
    then have ok: "fst ?r = None"
      by (simp only: report_fst map_option_is_None)
    then have nf: "\<not> settingsSaveFails w"
      by (simp add: saveConfigAtomic_fst settingsSaveFails_def w1)
    have "w' = snd (report ''failed to save Z.AI configuration''
              [''Z.AI configuration applied successfully'', [],
               ''To switch back to Anthropic: claude-switch --anthropic''] ?r)"
      using assms eq by simp
    then have "files w' = files (snd ?r)"
      by (simp only: report_fields)
    also have "\<dots> = (files w)(SettingsFile \<mapsto> MarshalConfig (zaiConfig t), Tmp SettingsFile := None)"
      using nf by (simp add: saveConfigAtomic_files settingsSaveFails_def w1)
    finally show ?thesis
      using p None nf by simp
  qed
qed

lemma switchToZAI_cases:
  assumes "loadConfig SettingsFile w = Inr config" and "\<not> isZAIConfig (Some config)"
  shows "(\<exists>e w3. switchToZAI w =
             (Some (Errorf ''failed to backup Anthropic config (web login token)'' e), w3)
           \<and> files w3 SettingsFile = files w SettingsFile
           \<and> files w3 BackupFile = files w BackupFile \<and> sameFlags w w3
           \<and> \<not> (fst (hasValidAnthropicBackup w) \<and> fst (snd (hasValidAnthropicBackup w)) \<noteq> None))
       \<or> (\<exists>wm. switchToZAI w = applyZAI wm \<and> sameFlags w wm \<and> sameInputs w wm
           \<and> files wm SettingsFile = files w SettingsFile
           \<and> mkdir_fails wm = mkdir_fails w
           \<and> (fst (hasValidAnthropicBackup w) \<and> fst (snd (hasValidAnthropicBackup w)) \<noteq> None
                \<longrightarrow> files wm BackupFile = files w BackupFile))"
proof -
  obtain hb b err where h: "hasValidAnthropicBackup w = (hb, b, err)"
    by (metis surj_pair)
  have four: "detectProvider (Some config) = ProviderAnthropic
      \<or> detectProvider (Some config) = ProviderUnknown
      \<or> detectProvider (Some config) = ProviderCustom"
    using assms(2) by (auto simp: isZAIConfig_def detectProvider_def Let_def)
  then show ?thesis
  proof (elim disjE)
    assume a: "detectProvider (Some config) = ProviderAnthropic"
    show ?thesis
    proof (cases "hb \<and> b \<noteq> None")
      case True
      then obtain bb where "hasValidAnthropicBackup w = (True, Some bb, err)"
        using h by auto
      from switchToZAI_preserve [OF assms(1) a this]
      show ?thesis
        by (intro disjI2 exI conjI, assumption) (simp_all add: sameFlags_def sameInputs_def)
    next
      case False
      note eq = switchToZAI_backup [OF assms(1) a h False]
      let ?r = "createBackupWithMetadata config ProviderAnthropic (checked err w)"
      show ?thesis
      proof (cases "fst ?r")
        case None
        then have eq': "switchToZAI w =
          applyZAI (say ''Anthropic configuration backed up (web login token saved)'' (snd ?r))"
          using eq by (simp add: case_prod_beta)
        have "\<not> (fst (hasValidAnthropicBackup w) \<and> fst (snd (hasValidAnthropicBackup w)) \<noteq> None)"
          using False h by simp
        with eq' show ?thesis
          by (intro disjI2 exI [of _ "say ''Anthropic configuration backed up (web login token saved)'' (snd ?r)"])
            (auto simp: sameFlags_def sameInputs_def)
      next
        case (Some e)
        then have bf: "backupSaveFails (checked err w)"
          using createBackupWithMetadata_fst [of config ProviderAnthropic "checked err w"] by auto
        have eq': "switchToZAI w =
          (Some (Errorf ''failed to backup Anthropic config (web login token)'' e), snd ?r)"
          using eq Some by (simp add: case_prod_beta)
        have "\<not> (fst (hasValidAnthropicBackup w) \<and> fst (snd (hasValidAnthropicBackup w)) \<noteq> None)"
          using False h by simp
        with eq' bf show ?thesis
          by (intro disjI1 exI [of _ e] exI [of _ "snd ?r"])
            (simp add: sameFlags_def createBackupWithMetadata_backup)
      qed
    qed
  next
    assume "detectProvider (Some config) = ProviderUnknown"
    from switchToZAI_unknown [OF assms(1) this]
    show ?thesis
      by (intro disjI2 exI conjI, assumption) (simp_all add: sameFlags_def sameInputs_def)
  next
    assume "detectProvider (Some config) = ProviderCustom"
    from switchToZAI_custom [OF assms(1) this]
    show ?thesis
      by (intro disjI2 exI conjI, assumption) (simp_all add: sameFlags_def sameInputs_def)
  qed
qed

lemma switchToZAI_sameFlags: "sameFlags w (snd (switchToZAI w))"
proof (cases "loadConfig SettingsFile w")
  case (Inl e)
  then show ?thesis by (simp add: switchToZAI_load_error sameFlags_def)
next
  case (Inr config)
  show ?thesis
  proof (cases "isZAIConfig (Some config)")
    case True
    with Inr show ?thesis by (simp add: switchToZAI_already sameFlags_def)
  next
    case False
    from switchToZAI_cases [OF Inr False] show ?thesis
      by (auto simp: sameFlags_def)
  qed
qed

lemma switchToZAI_keeps_backup:
  assumes "hasValidAnthropicBackup w = (True, Some b, err)"
  shows "files (snd (switchToZAI w)) BackupFile = files w BackupFile"
proof (cases "loadConfig SettingsFile w")
  case (Inl e)
  then show ?thesis by (simp add: switchToZAI_load_error)
next
  case (Inr config)
  show ?thesis
  proof (cases "isZAIConfig (Some config)")
    case True
    with Inr show ?thesis by (simp add: switchToZAI_already)
  next
    case False
    from switchToZAI_cases [OF Inr False] assms show ?thesis
      by auto
  qed
qed

lemma main_fst:
  "fst (main cmd w) =
     (if fst (case cmd of CmdAnthropic \<Rightarrow> switchToAnthropic w | CmdZAI \<Rightarrow> switchToZAI w
                | CmdStatus \<Rightarrow> showStatus w) = None then 0 else 1)"
  by (simp add: main_def split: prod.split option.split)

lemma main_files:
  "files (snd (main cmd w)) =
     files (snd (case cmd of CmdAnthropic \<Rightarrow> switchToAnthropic w | CmdZAI \<Rightarrow> switchToZAI w
                | CmdStatus \<Rightarrow> showStatus w))"
  by (simp add: main_def split: prod.split option.split)

lemma main_token_file:
  "token_file (snd (main cmd w)) =
     token_file (snd (case cmd of CmdAnthropic \<Rightarrow> switchToAnthropic w | CmdZAI \<Rightarrow> switchToZAI w
                | CmdStatus \<Rightarrow> showStatus w))"
  by (simp add: main_def split: prod.split option.split)

lemma showStatus_load_error:
  assumes "loadConfig SettingsFile w = Inl e"
  shows "showStatus w =
    (Some (Errorf ''failed to load config'' e), says [''Current Configuration Status'', []] w)"
  using assms by (simp add: showStatus_def Let_def del: says_simps)




lemma parse_error:
  assumes "files w SettingsFile = Some data" and "SettingsFile \<notin> unreadable w"
    and "UnmarshalConfig data = Inl e"
  shows "loadConfig SettingsFile w = Inl (Errorf ''failed to parse config'' e)"
  using assms by (simp add: loadConfig_def ReadFile_def)






section \<open>The example worlds, evaluated\<close>

lemma nextRun_fields [simp]:
  "files (nextRun env inp t w) = files w" "unreadable (nextRun env inp t w) = unreadable w"
  "unwritable (nextRun env inp t w) = unwritable w"
  "unrenamable (nextRun env inp t w) = unrenamable w"
  "mkdir_fails (nextRun env inp t w) = mkdir_fails w"
  by (simp_all add: nextRun_def)

lemma backupToken_frame:
  assumes "files w' BackupFile = files w BackupFile" and "unreadable w' = unreadable w"
  shows "backupToken w' = backupToken w"
  using hasValidAnthropicBackup_frame [of w' w] assms by (simp add: backupToken_def)

lemma zaiConfig_document:
  "UnmarshalConfig (MarshalConfig (zaiConfig t)) =
    Inr \<lparr>Env = Some
      [(''ANTHROPIC_AUTH_TOKEN'', toValidUTF8 t),
       (''ANTHROPIC_BASE_URL'', ''https://api.z.ai/api/anthropic''),
       (''ANTHROPIC_DEFAULT_HAIKU_MODEL'', ''GLM-4.5-Air''),
       (''ANTHROPIC_DEFAULT_OPUS_MODEL'', ''GLM-4.6''),
       (''ANTHROPIC_DEFAULT_SONNET_MODEL'', ''GLM-4.6''),
       (''API_TIMEOUT_MS'', ''3000000'')]\<rparr>"
  by (simp add: UnmarshalConfig_def MarshalConfig_def zaiConfig_def encodeMap_def matches_def
      decodeMap_def decodeString_def encodeString_def toValidUTF8_ascii byte_def)

lemma token_ascii: "toValidUTF8 ''sk-test1234'' = ''sk-test1234''"
  by (rule toValidUTF8_ascii) (simp add: byte_def)

lemma zaiConfig_isZAI:
  "isZAIConfig (Some \<lparr>Env = Some
      [(''ANTHROPIC_AUTH_TOKEN'', t),
       (''ANTHROPIC_BASE_URL'', ''https://api.z.ai/api/anthropic''),
       (''ANTHROPIC_DEFAULT_HAIKU_MODEL'', ''GLM-4.5-Air''),
       (''ANTHROPIC_DEFAULT_OPUS_MODEL'', ''GLM-4.6''),
       (''ANTHROPIC_DEFAULT_SONNET_MODEL'', ''GLM-4.6''),
       (''API_TIMEOUT_MS'', ''3000000'')]\<rparr>)"
  by (simp add: isZAIConfig_def detectProvider_def len_def index_def HasPrefix_def)

lemma webBackup_document: "UnmarshalBackup (MarshalBackup webBackup) = Inr webBackup"
  by (simp add: UnmarshalBackup_def MarshalBackup_def webBackup_def encodeMap_def matches_def
      upper_def decodeMap_def decodeString_def decodeMetadata_def zeroBackup_def
      encodeString_def toValidUTF8_ascii byte_def Provider_defs Version_const_def)

lemma zaiWorld_settings:
  "loadConfig SettingsFile zaiWorld =
    Inr \<lparr>Env = Some
      [(''ANTHROPIC_AUTH_TOKEN'', ''sk-test1234''),
       (''ANTHROPIC_BASE_URL'', ''https://api.z.ai/api/anthropic''),
       (''ANTHROPIC_DEFAULT_HAIKU_MODEL'', ''GLM-4.5-Air''),
       (''ANTHROPIC_DEFAULT_OPUS_MODEL'', ''GLM-4.6''),
       (''ANTHROPIC_DEFAULT_SONNET_MODEL'', ''GLM-4.6''),
       (''API_TIMEOUT_MS'', ''3000000'')]\<rparr>"
  by (simp add: loadConfig_def ReadFile_def zaiWorld_def emptyWorld_def zaiConfig_document
      token_ascii)

lemma zaiWorld_backup: "hasValidAnthropicBackup zaiWorld = (True, Some webBackup, None)"
  by (simp add: hasValidAnthropicBackup_def ReadFile_def zaiWorld_def emptyWorld_def
      webBackup_document) (simp add: webBackup_def)

lemma anthropic_document:
  "UnmarshalConfig (MarshalConfig \<lparr>Env = Some [(''ANTHROPIC_AUTH_TOKEN'', ''web-session-token'')]\<rparr>)
     = Inr \<lparr>Env = Some [(''ANTHROPIC_AUTH_TOKEN'', ''web-session-token'')]\<rparr>"
  by (simp add: UnmarshalConfig_def MarshalConfig_def encodeMap_def matches_def
      decodeMap_def decodeString_def encodeString_def toValidUTF8_ascii byte_def)

lemma anthropic_isAnthropic:
  "detectProvider (Some \<lparr>Env = Some [(''ANTHROPIC_AUTH_TOKEN'', ''web-session-token'')]\<rparr>)
     = ProviderAnthropic"
  by (simp add: detectProvider_def len_def index_def)

lemma stuckWorld_settings:
  "loadConfig SettingsFile stuckWorld =
     Inr \<lparr>Env = Some [(''ANTHROPIC_AUTH_TOKEN'', ''web-session-token'')]\<rparr>"
  by (simp add: loadConfig_def ReadFile_def stuckWorld_def anthropicWorld_def emptyWorld_def
      anthropic_document)

lemma stuckWorld_backup:
  "hasValidAnthropicBackup stuckWorld = (False, None, Some SyntaxError)"
  by (simp add: hasValidAnthropicBackup_def ReadFile_def stuckWorld_def anthropicWorld_def
      emptyWorld_def UnmarshalBackup_def UnmarshalConfig_def)

lemma staleWorld_settings:
  "loadConfig SettingsFile staleWorld =
     Inr \<lparr>Env = Some [(''ANTHROPIC_AUTH_TOKEN'', ''web-session-token'')]\<rparr>"
  by (simp add: loadConfig_def ReadFile_def staleWorld_def anthropicWorld_def emptyWorld_def
      anthropic_document)

lemma staleWorld_backup:
  "hasValidAnthropicBackup staleWorld = (False, None, Some SyntaxError)"
  by (simp add: hasValidAnthropicBackup_def ReadFile_def staleWorld_def anthropicWorld_def
      emptyWorld_def UnmarshalBackup_def UnmarshalConfig_def)

lemma zaiMapping_keys:
  "set (map fst (zaiMapping t)) = set (''ANTHROPIC_AUTH_TOKEN'' # zaiEnvKeys)
   \<and> length (zaiMapping t) = 6 \<and> distinct (map fst (zaiMapping t))"
  by (auto simp: zaiMapping_def zaiEnvKeys_def)

lemma freshWorld_settings: "loadConfig SettingsFile freshWorld = Inr \<lparr>Env = Some []\<rparr>"
  by (simp add: loadConfig_def ReadFile_def freshWorld_def emptyWorld_def)

lemma freshWorld_unknown: "detectProvider (Some \<lparr>Env = Some []\<rparr>) = ProviderUnknown"
  by (simp add: detectProvider_def len_def)

lemma freshWorld_token: "fst (promptForToken freshWorld) = (''sk-test1234'', None)"
  by (simp add: promptForToken_def freshWorld_def emptyWorld_def)

lemma freshWorld_switch: "fst (switchToZAI freshWorld) = None"
  using switchToZAI_unknown [OF freshWorld_settings freshWorld_unknown]
  by (simp add: applyZAI_def promptForToken_def validateTokenForProvider_def Let_def
      freshWorld_def emptyWorld_def saveConfigAtomic_fst settingsSaveFails_def
      hasValidAnthropicBackup_def)

lemma invalidTokenWorld_settings:
  "loadConfig SettingsFile invalidTokenWorld = Inr \<lparr>Env = Some []\<rparr>"
  by (simp add: loadConfig_def ReadFile_def invalidTokenWorld_def emptyWorld_def)

lemma invalidToken_coerced:
  "toValidUTF8 invalidToken = ''sk-'' @ [CHR 0xEF, CHR 0xBF, CHR 0xBD] @ ''test''"
  by (simp add: invalidToken_def toValidUTF8_ascii_head toValidUTF8_invalid_head byte_def
      runeWidth_def)

lemma brokenWorld_target: "restoreTarget brokenWorld = \<lparr>Env = Some []\<rparr>"
  by (simp add: restoreTarget_def hasValidAnthropicBackup_def brokenWorld_def emptyWorld_def)

lemma brokenWorld_saves: "\<not> settingsSaveFails brokenWorld"
  by (simp add: settingsSaveFails_def brokenWorld_def emptyWorld_def)

lemma brokenWorld_not_anthropic: "\<not> alreadyAnthropic brokenWorld"
  by (simp add: alreadyAnthropic_def loadConfig_def ReadFile_def UnmarshalConfig_def
      brokenWorld_def emptyWorld_def)

lemma zaiWorld_not_anthropic: "\<not> alreadyAnthropic zaiWorld"
  using zaiConfig_isZAI [of "''sk-test1234''"]
  by (simp add: alreadyAnthropic_def zaiWorld_settings isAnthropicConfig_def isZAIConfig_def
      Provider_defs)

lemma zaiWorld_saves: "\<not> settingsSaveFails zaiWorld"
  by (simp add: settingsSaveFails_def zaiWorld_def emptyWorld_def)

lemma zaiWorld_target:
  "restoreTarget zaiWorld = \<lparr>Env = Some [(''ANTHROPIC_AUTH_TOKEN'', ''web-session-token'')]\<rparr>"
  by (simp add: restoreTarget_def zaiWorld_backup)
     (simp add: webBackup_def zaiEnvKeys_def delete_key_def)

lemma zaiWorld_restored: "alreadyAnthropic (snd (switchToAnthropic zaiWorld))"
proof -
  have "files (snd (switchToAnthropic zaiWorld)) SettingsFile =
      Some (MarshalConfig \<lparr>Env = Some [(''ANTHROPIC_AUTH_TOKEN'', ''web-session-token'')]\<rparr>)"
    using zaiWorld_not_anthropic zaiWorld_saves
    by (simp add: switchToAnthropic_files settingsSaveFails_def zaiWorld_target)
  moreover have "SettingsFile \<notin> unreadable (snd (switchToAnthropic zaiWorld))"
    by (simp add: zaiWorld_def emptyWorld_def)
  ultimately have "loadConfig SettingsFile (snd (switchToAnthropic zaiWorld)) =
      Inr \<lparr>Env = Some [(''ANTHROPIC_AUTH_TOKEN'', ''web-session-token'')]\<rparr>"
    by (simp add: loadConfig_def ReadFile_def anthropic_document)
  then show ?thesis
    by (simp add: alreadyAnthropic_def isAnthropicConfig_def anthropic_isAnthropic)
qed




section \<open>Documents of the old backup format\<close>

lemma env_is_no_metadata: "\<not> matches ''_metadata'' ''env''" "matches ''env'' ''env''"
  by (simp_all add: matches_def upper_def)

lemma bare_env_as_backup:
  "UnmarshalBackup (JSON (JObject [(''env'', j)])) =
     (case decodeMap j None of
        Inl e \<Rightarrow> Inl e
      | Inr m \<Rightarrow> Inr \<lparr>Metadata = \<lparr>Provider = [], CreatedAt = [], Version = []\<rparr>, BackupEnv = m\<rparr>)"
  by (simp add: UnmarshalBackup_def env_is_no_metadata zeroBackup_def split: sum.split)

lemma bare_env_as_config:
  "UnmarshalConfig (JSON (JObject [(''env'', j)])) =
     (case decodeMap j None of Inl e \<Rightarrow> Inl e | Inr m \<Rightarrow> Inr \<lparr>Env = m\<rparr>)"
  by (simp add: UnmarshalConfig_def env_is_no_metadata split: sum.split)

text \<open>No document of the old format is accepted, whatever its mapping.\<close>

lemma bare_env_never_valid:
  assumes "files w BackupFile = Some (JSON (JObject [(''env'', j)]))"
  shows "fst (hasValidAnthropicBackup w) = False"
  using assms
  by (simp add: hasValidAnthropicBackup_def ReadFile_def bare_env_as_backup bare_env_as_config
      ProviderAnthropic_def split: sum.split)

text \<open>The fallback is reached by a document whose \<open>_metadata\<close> has the wrong type.\<close>

lemma fallback_reached:
  assumes "files w BackupFile =
      Some (JSON (JObject [(''_metadata'', JString x), (''env'', JObject [])]))"
    and "BackupFile \<notin> unreadable w"
  shows "hasValidAnthropicBackup w =
     (True,
      Some \<lparr>Metadata = \<lparr>Provider = ProviderAnthropic, CreatedAt = [], Version = []\<rparr>,
            BackupEnv = Some []\<rparr>,
      None)"
  using assms
  by (simp add: hasValidAnthropicBackup_def ReadFile_def UnmarshalBackup_def UnmarshalConfig_def
      matches_def upper_def decodeMetadata_def decodeMap_def)

text \<open>With a backup of the old format, switch-to-Anthropic finds no backup to restore and
  writes the empty configuration.\<close>

lemma legacyWorld_restore:
  "fst (switchToAnthropic legacyWorld) = None
   \<and> files (snd (switchToAnthropic legacyWorld)) SettingsFile
       = Some (MarshalConfig \<lparr>Env = Some []\<rparr>)"
proof -
  have f: "files legacyWorld BackupFile
      = Some (JSON (JObject [(''env'', JObject [(''ANTHROPIC_AUTH_TOKEN'', JString ''web-session-token'')])]))"
    by (simp add: legacyWorld_def legacyDocument_def)
  have v: "fst (hasValidAnthropicBackup legacyWorld) = False"
    by (rule bare_env_never_valid [OF f])
  have t: "restoreTarget legacyWorld = \<lparr>Env = Some []\<rparr>"
    using v by (auto simp: restoreTarget_def split: prod.split option.split)
  have s: "loadConfig SettingsFile legacyWorld = loadConfig SettingsFile zaiWorld"
    by (rule loadConfig_frame) (simp_all add: legacyWorld_def zaiWorld_def)
  have n: "\<not> alreadyAnthropic legacyWorld"
    using zaiWorld_not_anthropic by (simp add: alreadyAnthropic_def s)
  have ok: "\<not> settingsSaveFails legacyWorld"
    by (simp add: settingsSaveFails_def legacyWorld_def emptyWorld_def)
  show ?thesis
    using n ok t by (simp add: switchToAnthropic_fst switchToAnthropic_files settingsSaveFails_def)
qed

section \<open>Writing a configuration and reading it back\<close>

lemma update_fresh: "k \<notin> fst ` set al \<Longrightarrow> AList.update k v al = al @ [(k, v)]"
  by (induction al) auto

lemma decodeMapMembers_encode:
  assumes "distinct (map fst al)" and "fst ` set al \<inter> fst ` set acc = {}"
  shows "decodeMapMembers (map (\<lambda>(k, v). (k, JString v)) al) acc = Inr (acc @ al)"
  using assms
proof (induction al arbitrary: acc)
  case Nil
  then show ?case by simp
next
  case (Cons kv al)
  obtain k v where kv: "kv = (k, v)"
    by (cases kv)
  have fresh: "k \<notin> fst ` set acc"
    using Cons.prems(2) kv by auto
  have "fst ` set al \<inter> fst ` set (acc @ [(k, v)]) = {}"
    using Cons.prems kv by auto
  then have "decodeMapMembers (map (\<lambda>(k, v). (k, JString v)) al) (acc @ [(k, v)])
      = Inr ((acc @ [(k, v)]) @ al)"
    using Cons.IH Cons.prems(1) kv by simp
  then show ?case
    by (simp add: kv decodeString_def update_fresh [OF fresh])
qed

lemma distinct_keys_insort:
  "distinct (map f (insort_key f x xs)) \<longleftrightarrow> f x \<notin> f ` set xs \<and> distinct (map f xs)"
  by (induction xs) (auto simp: set_insort_key)

lemma distinct_keys_sort: "distinct (map f (sort_key f xs)) \<longleftrightarrow> distinct (map f xs)"
  by (induction xs) (simp_all add: distinct_keys_insort)

text \<open>A mapping of valid strings is read back as it was written, in the order of its keys.\<close>

lemma roundtrip_config:
  assumes "distinct (map fst al)"
    and "\<forall>kv\<in>set al. validUTF8 (fst kv) \<and> validUTF8 (snd kv)"
  shows "UnmarshalConfig (MarshalConfig \<lparr>Env = Some al\<rparr>) = Inr \<lparr>Env = Some (sort_key fst al)\<rparr>"
proof -
  have "distinct (map fst (sort_key fst al))"
    using assms(1) by (simp add: distinct_keys_sort)
  then have d: "decodeMapMembers (map (\<lambda>(k, v). (k, JString v)) (sort_key fst al)) []
      = Inr (sort_key fst al)"
    using decodeMapMembers_encode [of "sort_key fst al" "[]"] by simp
  have e: "map (\<lambda>(k, v). (toValidUTF8 k, encodeString v)) (sort_key fst al)
      = map (\<lambda>(k, v). (k, JString v)) (sort_key fst al)"
    using assms(2) by (auto simp: encodeString_def validUTF8_fixed)
  show ?thesis
    by (simp add: UnmarshalConfig_def MarshalConfig_def encodeMap_def decodeMap_def
        env_is_no_metadata e d)
qed




section \<open>The keys of a decoded mapping are distinct\<close>

lemma decodeMapMembers_distinct:
  "decodeMapMembers kvs acc = Inr m \<Longrightarrow> distinct (map fst acc) \<Longrightarrow> distinct (map fst m)"
proof (induction kvs arbitrary: acc)
  case Nil
  then show ?case by simp
next
  case (Cons kv kvs)
  obtain k v where kv: "kv = (k, v)"
    by (cases kv)
  from Cons.prems(1) obtain s where s: "decodeString v [] = Inr s"
    and rest: "decodeMapMembers kvs (AList.update k s acc) = Inr m"
    by (auto simp: kv split: sum.splits)
  have "distinct (map fst (AList.update k s acc))"
    using Cons.prems(2) by (simp add: distinct_update)
  then show ?case
    using Cons.IH [OF rest] by simp
qed

lemma decodeMap_distinct:
  "decodeMap j old = Inr m \<Longrightarrow> distinctKeys old \<Longrightarrow> distinctKeys m"
  by (auto simp: decodeMap_def distinctKeys_def split: json.splits sum.splits option.splits
      dest: decodeMapMembers_distinct)

lemma decodeConfigMembers_distinct:
  "decodeConfigMembers kvs c = Inr c' \<Longrightarrow> distinctKeys (Env c) \<Longrightarrow> distinctKeys (Env c')"
proof (induction kvs arbitrary: c)
  case Nil
  then show ?case by simp
next
  case (Cons kv kvs)
  obtain k v where kv: "kv = (k, v)"
    by (cases kv)
  show ?case
  proof (cases "matches ''env'' k")
    case True
    with Cons.prems(1) obtain m where m: "decodeMap v (Env c) = Inr m"
      and rest: "decodeConfigMembers kvs (c\<lparr>Env := m\<rparr>) = Inr c'"
      by (auto simp: kv split: sum.splits)
    have "distinctKeys (Env (c\<lparr>Env := m\<rparr>))"
      using decodeMap_distinct [OF m Cons.prems(2)] by simp
    then show ?thesis
      using Cons.IH [OF rest] by simp
  next
    case False
    with Cons.prems(1) have "decodeConfigMembers kvs c = Inr c'"
      by (simp add: kv)
    then show ?thesis
      using Cons.IH Cons.prems(2) by simp
  qed
qed

lemma decodeBackupMembers_distinct:
  "decodeBackupMembers kvs b = Inr b' \<Longrightarrow> distinctKeys (BackupEnv b) \<Longrightarrow>
   distinctKeys (BackupEnv b')"
proof (induction kvs arbitrary: b)
  case Nil
  then show ?case by simp
next
  case (Cons kv kvs)
  obtain k v where kv: "kv = (k, v)"
    by (cases kv)
  consider (meta) "matches ''_metadata'' k"
    | (env) "\<not> matches ''_metadata'' k" "matches ''env'' k"
    | (other) "\<not> matches ''_metadata'' k" "\<not> matches ''env'' k"
    by blast
  then show ?case
  proof cases
    case meta
    with Cons.prems(1) obtain m where
      rest: "decodeBackupMembers kvs (b\<lparr>Metadata := m\<rparr>) = Inr b'"
      by (auto simp: kv split: sum.splits)
    show ?thesis
      using Cons.IH [OF rest] Cons.prems(2) by simp
  next
    case env
    with Cons.prems(1) obtain m where m: "decodeMap v (BackupEnv b) = Inr m"
      and rest: "decodeBackupMembers kvs (b\<lparr>BackupEnv := m\<rparr>) = Inr b'"
      by (auto simp: kv split: sum.splits)
    have "distinctKeys (BackupEnv (b\<lparr>BackupEnv := m\<rparr>))"
      using decodeMap_distinct [OF m Cons.prems(2)] by simp
    then show ?thesis
      using Cons.IH [OF rest] by simp
  next
    case other
    with Cons.prems(1) have "decodeBackupMembers kvs b = Inr b'"
      by (simp add: kv)
    then show ?thesis
      using Cons.IH Cons.prems(2) by simp
  qed
qed

lemma UnmarshalConfig_distinct: "UnmarshalConfig data = Inr c \<Longrightarrow> distinctKeys (Env c)"
  by (auto simp: UnmarshalConfig_def distinctKeys_def split: content.splits json.splits
      dest!: decodeConfigMembers_distinct)

lemma UnmarshalBackup_distinct: "UnmarshalBackup data = Inr b \<Longrightarrow> distinctKeys (BackupEnv b)"
  by (auto simp: UnmarshalBackup_def distinctKeys_def zeroBackup_def
      split: content.splits json.splits dest!: decodeBackupMembers_distinct)

lemma hasValidAnthropicBackup_distinct:
  assumes "hasValidAnthropicBackup w = (hb, Some b, err)"
  shows "distinctKeys (BackupEnv b)"
  using assms
  by (auto simp: hasValidAnthropicBackup_def split: if_splits sum.splits
      dest: UnmarshalBackup_distinct UnmarshalConfig_distinct)

section \<open>Restoring a backup leaves Anthropic settings\<close>



section \<open>A backup file of the old format\<close>

text \<open>
  Claim C1 says that a backup file holding only \<open>{"env": {...}}\<close> is reported as a
  valid Anthropic backup. The code does not do so: such a document decodes as a
  \<open>BackupConfig\<close> without error, with an empty provider, so the fallback for the old
  format is not reached and \<open>hasValidAnthropicBackup\<close> returns false with that record.
\<close>

theorem legacy_backup_rejected:
  "files legacyWorld BackupFile = Some legacyDocument
   \<and> UnmarshalBackup legacyDocument =
       Inr \<lparr>Metadata = \<lparr>Provider = [], CreatedAt = [], Version = []\<rparr>,
            BackupEnv = Some [(''ANTHROPIC_AUTH_TOKEN'', ''web-session-token'')]\<rparr>
   \<and> hasValidAnthropicBackup legacyWorld =
       (False,
        Some \<lparr>Metadata = \<lparr>Provider = [], CreatedAt = [], Version = []\<rparr>,
              BackupEnv = Some [(''ANTHROPIC_AUTH_TOKEN'', ''web-session-token'')]\<rparr>,
        None)"
proof -
  have d: "UnmarshalBackup legacyDocument =
       Inr \<lparr>Metadata = \<lparr>Provider = [], CreatedAt = [], Version = []\<rparr>,
            BackupEnv = Some [(''ANTHROPIC_AUTH_TOKEN'', ''web-session-token'')]\<rparr>"
    by (simp add: UnmarshalBackup_def legacyDocument_def matches_def upper_def decodeMap_def
        decodeString_def zeroBackup_def)
  have f: "files legacyWorld BackupFile = Some legacyDocument"
    "BackupFile \<notin> unreadable legacyWorld"
    by (simp_all add: legacyWorld_def emptyWorld_def)
  show ?thesis
    using d f by (simp add: hasValidAnthropicBackup_def ReadFile_def ProviderAnthropic_def)
qed

section \<open>The backup slot over a cycle of switches\<close>

text \<open>
  Claim C2. From a world whose settings classify as ZAI and whose backup slot holds a valid
  Anthropic backup, the runs switch-to-Anthropic, switch-to-ZAI, switch-to-Anthropic, each
  with its own environment, input and clock and with no edit of the files in between,
  leave the backup file as it is: after every run the credential
  \<open>ANTHROPIC_AUTH_TOKEN\<close> of the backup slot is the original one.
\<close>

theorem backup_credential_preserved:
  assumes "loadConfig SettingsFile w0 = Inr c" and "isZAIConfig (Some c)"
    and "hasValidAnthropicBackup w0 = (True, Some b, err)"
    and "w1 = snd (switchToAnthropic w0)"
    and "w2 = snd (switchToZAI (nextRun env2 inp2 t2 w1))"
    and "w3 = snd (switchToAnthropic (nextRun env3 inp3 t3 w2))"
  shows "backupToken w0 = Some (index (BackupEnv b) ''ANTHROPIC_AUTH_TOKEN'')
    \<and> backupToken w1 = backupToken w0 \<and> backupToken w2 = backupToken w0
    \<and> backupToken w3 = backupToken w0
    \<and> files w1 BackupFile = files w0 BackupFile \<and> files w2 BackupFile = files w0 BackupFile
    \<and> files w3 BackupFile = files w0 BackupFile"
proof -
  have f1: "files w1 BackupFile = files w0 BackupFile" and u1: "unreadable w1 = unreadable w0"
    using assms(4) switchToAnthropic_files [of w0] by simp_all
  have "hasValidAnthropicBackup (nextRun env2 inp2 t2 w1) = hasValidAnthropicBackup w0"
    by (rule hasValidAnthropicBackup_frame) (simp_all add: f1 u1)
  then have v1: "hasValidAnthropicBackup (nextRun env2 inp2 t2 w1) = (True, Some b, err)"
    using assms(3) by simp
  have f2: "files w2 BackupFile = files w0 BackupFile"
    using switchToZAI_keeps_backup [OF v1] assms(5) f1 by simp
  have u2: "unreadable w2 = unreadable w0"
    using switchToZAI_sameFlags [of "nextRun env2 inp2 t2 w1"] assms(5) u1
    by (simp add: sameFlags_def)
  have f3: "files w3 BackupFile = files w0 BackupFile" and u3: "unreadable w3 = unreadable w0"
    using assms(6) switchToAnthropic_files [of "nextRun env3 inp3 t3 w2"] f2 u2 by simp_all
  have "backupToken w0 = Some (index (BackupEnv b) ''ANTHROPIC_AUTH_TOKEN'')"
    using assms(3) by (simp add: backupToken_def)
  then show ?thesis
    using f1 f2 f3 backupToken_frame [OF f1 u1] backupToken_frame [OF f2 u2]
      backupToken_frame [OF f3 u3]
    by simp
qed

theorem backup_credential_preserved_witness:
  "backupToken zaiWorld = Some ''web-session-token''
   \<and> backupToken (snd (switchToAnthropic zaiWorld)) = Some ''web-session-token''
   \<and> backupToken (snd (switchToZAI (nextRun ''sk-test1234'' [] ''2025-01-02T00:00:00Z''
        (snd (switchToAnthropic zaiWorld))))) = Some ''web-session-token''
   \<and> backupToken (snd (switchToAnthropic (nextRun [] [] ''2025-01-03T00:00:00Z''
        (snd (switchToZAI (nextRun ''sk-test1234'' [] ''2025-01-02T00:00:00Z''
          (snd (switchToAnthropic zaiWorld)))))))) = Some ''web-session-token''"
  using backup_credential_preserved [OF zaiWorld_settings zaiConfig_isZAI zaiWorld_backup refl refl refl,
      of "''sk-test1234''" "[]" "''2025-01-02T00:00:00Z''" "[]" "[]" "''2025-01-03T00:00:00Z''"]
  by (simp add: webBackup_def index_def)

section \<open>A settings file that does not parse\<close>

text \<open>
  Claim C3, as stated, fails for switch-to-Anthropic: with a settings file that is no JSON
  text and no backup, the run succeeds with exit code 0 and replaces the settings file by
  the empty configuration.
\<close>

theorem malformed_settings_counterexample:
  "files brokenWorld SettingsFile = Some NotJSON
   \<and> SettingsFile \<notin> unreadable brokenWorld
   \<and> UnmarshalConfig NotJSON = Inl SyntaxError
   \<and> fst (switchToAnthropic brokenWorld) = None
   \<and> fst (main CmdAnthropic brokenWorld) = 0
   \<and> files (snd (main CmdAnthropic brokenWorld)) SettingsFile
       = Some (MarshalConfig \<lparr>Env = Some []\<rparr>)
   \<and> MarshalConfig \<lparr>Env = Some []\<rparr> \<noteq> NotJSON"
proof -
  have 1: "files brokenWorld SettingsFile = Some NotJSON"
    "SettingsFile \<notin> unreadable brokenWorld"
    by (simp_all add: brokenWorld_def emptyWorld_def)
  have 3: "UnmarshalConfig NotJSON = Inl SyntaxError"
    by (simp add: UnmarshalConfig_def)
  have 4: "fst (switchToAnthropic brokenWorld) = None"
    using brokenWorld_not_anthropic brokenWorld_saves by (simp add: switchToAnthropic_fst)
  have 5: "files (snd (switchToAnthropic brokenWorld)) SettingsFile
       = Some (MarshalConfig \<lparr>Env = Some []\<rparr>)"
    using brokenWorld_not_anthropic brokenWorld_saves
    by (simp add: switchToAnthropic_files settingsSaveFails_def brokenWorld_target)
  show ?thesis
    using 1 3 4 5 by (simp add: main_fst main_files MarshalConfig_def)
qed

text \<open>
  Claim C3, amended. If the settings file exists and can be read but does not parse as a
  configuration, switch-to-ZAI and show-status fail with the parse error and exit code 1
  and leave every file as it is, the token file included. Switch-to-Anthropic loads the
  settings only to see whether Anthropic is already in use and ignores the error: it goes
  on to restore the backup (or the empty configuration), replaces the settings file and
  exits with code 0; it fails, leaving the settings file as it is, only when the settings
  cannot be saved.
\<close>

theorem malformed_settings:
  assumes "files w SettingsFile = Some data" and "SettingsFile \<notin> unreadable w"
    and "UnmarshalConfig data = Inl e"
  shows "fst (switchToZAI w) =
        Some (Errorf ''failed to load config'' (Errorf ''failed to parse config'' e))
    \<and> fst (main CmdZAI w) = 1 \<and> files (snd (main CmdZAI w)) = files w
    \<and> token_file (snd (main CmdZAI w)) = token_file w
    \<and> fst (showStatus w) =
        Some (Errorf ''failed to load config'' (Errorf ''failed to parse config'' e))
    \<and> fst (main CmdStatus w) = 1 \<and> files (snd (main CmdStatus w)) = files w
    \<and> token_file (snd (main CmdStatus w)) = token_file w
    \<and> fst (main CmdAnthropic w) = (if settingsSaveFails w then 1 else 0)
    \<and> (\<not> settingsSaveFails w \<longrightarrow>
         files (snd (main CmdAnthropic w)) SettingsFile = Some (MarshalConfig (restoreTarget w)))
    \<and> (settingsSaveFails w \<longrightarrow>
         files (snd (main CmdAnthropic w)) SettingsFile = files w SettingsFile)"
proof -
  note l = parse_error [OF assms]
  have z: "fst (switchToZAI w) =
        Some (Errorf ''failed to load config'' (Errorf ''failed to parse config'' e))"
    "files (snd (switchToZAI w)) = files w"
    "token_file (snd (switchToZAI w)) = token_file w"
    by (simp_all add: switchToZAI_load_error [OF l])
  have s: "fst (showStatus w) =
        Some (Errorf ''failed to load config'' (Errorf ''failed to parse config'' e))"
    "files (snd (showStatus w)) = files w"
    "token_file (snd (showStatus w)) = token_file w"
    by (simp_all add: showStatus_load_error [OF l])
  have n: "\<not> alreadyAnthropic w"
    by (simp add: alreadyAnthropic_def l)
  have a: "fst (switchToAnthropic w) = None \<longleftrightarrow> \<not> settingsSaveFails w"
    using n by (simp add: switchToAnthropic_fst)
  have f: "\<not> settingsSaveFails w \<longrightarrow>
      files (snd (switchToAnthropic w)) SettingsFile = Some (MarshalConfig (restoreTarget w))"
    using n by (simp add: switchToAnthropic_files settingsSaveFails_def)
  have g: "settingsSaveFails w \<longrightarrow>
      files (snd (switchToAnthropic w)) SettingsFile = files w SettingsFile"
    using n by (simp add: switchToAnthropic_files settingsSaveFails_def)
  show ?thesis
    using z s a f g by (simp add: main_fst main_files main_token_file)
qed

theorem malformed_settings_witness:
  "fst (main CmdZAI brokenWorld) = 1
   \<and> files (snd (main CmdZAI brokenWorld)) SettingsFile = Some NotJSON
   \<and> fst (main CmdStatus brokenWorld) = 1
   \<and> files (snd (main CmdStatus brokenWorld)) SettingsFile = Some NotJSON
   \<and> fst (main CmdAnthropic brokenWorld) = 0
   \<and> fst (main CmdAnthropic lockedWorld) = 1
   \<and> files (snd (main CmdAnthropic lockedWorld)) SettingsFile = Some NotJSON"
proof -
  have 1: "files brokenWorld SettingsFile = Some NotJSON"
    "files lockedWorld SettingsFile = Some NotJSON"
    by (simp_all add: lockedWorld_def brokenWorld_def)
  have 2: "SettingsFile \<notin> unreadable brokenWorld" "SettingsFile \<notin> unreadable lockedWorld"
    by (simp_all add: lockedWorld_def brokenWorld_def emptyWorld_def)
  have 3: "UnmarshalConfig NotJSON = Inl SyntaxError"
    by (simp add: UnmarshalConfig_def)
  have 4: "settingsSaveFails lockedWorld"
    by (simp add: settingsSaveFails_def lockedWorld_def)
  show ?thesis
    using malformed_settings [OF 1(1) 2(1) 3] malformed_settings [OF 1(2) 2(2) 3]
      1 4 brokenWorld_saves
    by simp
qed

section \<open>Provider detection is a total classification\<close>

text \<open>
  Claim C4. \<open>detectProvider\<close> returns exactly one of the four provider names for every
  configuration: Unknown for the empty mapping, ZAI when the base URL contains \<open>z.ai\<close>,
  Anthropic when the mapping is not empty and the base URL is empty, Custom when the base
  URL is not empty and does not contain the marker.
\<close>

theorem detectProvider_classification:
  "detectProvider (Some c) \<in> {ProviderAnthropic, ProviderZAI, ProviderCustom, ProviderUnknown}
   \<and> distinct [ProviderAnthropic, ProviderZAI, ProviderCustom, ProviderUnknown]
   \<and> (len (Env c) = 0 \<longrightarrow> detectProvider (Some c) = ProviderUnknown)
   \<and> (sublist ''z.ai'' (index (Env c) ''ANTHROPIC_BASE_URL'') \<longrightarrow>
        detectProvider (Some c) = ProviderZAI)
   \<and> (len (Env c) \<noteq> 0 \<and> index (Env c) ''ANTHROPIC_BASE_URL'' = [] \<longrightarrow>
        detectProvider (Some c) = ProviderAnthropic)
   \<and> (index (Env c) ''ANTHROPIC_BASE_URL'' \<noteq> []
        \<and> \<not> sublist ''z.ai'' (index (Env c) ''ANTHROPIC_BASE_URL'') \<longrightarrow>
        detectProvider (Some c) = ProviderCustom)"
proof -
  have nonempty: "len (Env c) \<noteq> 0" if "index (Env c) ''ANTHROPIC_BASE_URL'' \<noteq> []"
    using that index_empty by blast
  have marker: "index (Env c) ''ANTHROPIC_BASE_URL'' \<noteq> []"
    if "sublist ''z.ai'' (index (Env c) ''ANTHROPIC_BASE_URL'')"
    using that by auto
  show ?thesis
    using nonempty marker
    by (auto simp: detectProvider_def Let_def Contains_sublist Provider_defs)
qed

theorem detectProvider_classification_witness:
  "detectProvider (Some \<lparr>Env = Some []\<rparr>) = ProviderUnknown
   \<and> detectProvider
        (Some \<lparr>Env = Some [(''ANTHROPIC_BASE_URL'', ''https://api.z.ai/api/anthropic'')]\<rparr>)
       = ProviderZAI
   \<and> detectProvider (Some \<lparr>Env = Some [(''ANTHROPIC_AUTH_TOKEN'', ''t'')]\<rparr>) = ProviderAnthropic
   \<and> detectProvider (Some \<lparr>Env = Some [(''ANTHROPIC_BASE_URL'', ''http://localhost'')]\<rparr>)
       = ProviderCustom"
proof -
  have z: "sublist ''z.ai'' ''https://api.z.ai/api/anthropic''"
    unfolding Contains_sublist [symmetric] by (simp add: HasPrefix_def)
  have l: "\<not> sublist ''z.ai'' ''http://localhost''"
    unfolding Contains_sublist [symmetric] by (simp add: HasPrefix_def)
  show ?thesis
    using z l
      detectProvider_classification [of "\<lparr>Env = Some []\<rparr>"]
      detectProvider_classification
        [of "\<lparr>Env = Some [(''ANTHROPIC_BASE_URL'', ''https://api.z.ai/api/anthropic'')]\<rparr>"]
      detectProvider_classification [of "\<lparr>Env = Some [(''ANTHROPIC_AUTH_TOKEN'', ''t'')]\<rparr>"]
      detectProvider_classification
        [of "\<lparr>Env = Some [(''ANTHROPIC_BASE_URL'', ''http://localhost'')]\<rparr>"]
    by (simp add: len_def index_def)
qed

section \<open>Token classification and masking\<close>

text \<open>
  Claim C7. \<open>detectTokenType\<close> classifies a credential by its shape: a token with the
  prefix \<open>sk-\<close> or \<open>zai-\<close> is an API key; otherwise a token with at least two dots and
  more than 100 bytes, or with more than 200 bytes, is a web-session token; otherwise a
  non-empty token of fewer than 100 bytes is an API key; every other token, the empty one
  included, is Unknown.
\<close>

theorem detectTokenType_classification:
  "detectTokenType t \<in> {TokenTypeZAI, TokenTypeAnthropic, TokenTypeUnknown}
   \<and> distinct [TokenTypeZAI, TokenTypeAnthropic, TokenTypeUnknown]
   \<and> (apiKeyShaped t \<longrightarrow> detectTokenType t = TokenTypeZAI)
   \<and> (\<not> apiKeyShaped t \<and> webSessionShaped t \<longrightarrow> detectTokenType t = TokenTypeAnthropic)
   \<and> (\<not> apiKeyShaped t \<and> t \<noteq> [] \<and> length t < 100 \<longrightarrow> detectTokenType t = TokenTypeZAI)
   \<and> (\<not> apiKeyShaped t \<and> \<not> webSessionShaped t \<and> (t = [] \<or> length t \<ge> 100) \<longrightarrow>
        detectTokenType t = TokenTypeUnknown)"
  by (auto simp: detectTokenType_def apiKeyShaped_def webSessionShaped_def HasPrefix_prefix
      Count_def TokenType_defs)

theorem detectTokenType_classification_witness:
  "detectTokenType ''sk-test1234'' = TokenTypeZAI
   \<and> detectTokenType (''h.p.'' @ replicate 120 (CHR ''x'')) = TokenTypeAnthropic
   \<and> detectTokenType ''abc'' = TokenTypeZAI
   \<and> detectTokenType [] = TokenTypeUnknown
   \<and> detectTokenType ((CHR ''x'' # replicate 149 (CHR ''x''))) = TokenTypeUnknown"
proof -
  have k: "apiKeyShaped ''sk-test1234''"
    by (simp add: apiKeyShaped_def)
  have j: "\<not> apiKeyShaped (''h.p.'' @ replicate 120 (CHR ''x''))"
    by (simp add: apiKeyShaped_def)
  have j': "webSessionShaped (''h.p.'' @ replicate 120 (CHR ''x''))"
    by (simp add: webSessionShaped_def)
  have s: "\<not> apiKeyShaped ''abc'' \<and> ''abc'' \<noteq> [] \<and> length ''abc'' < 100"
    by (simp add: apiKeyShaped_def)
  have e: "\<not> apiKeyShaped [] \<and> \<not> webSessionShaped []"
    by (simp add: apiKeyShaped_def webSessionShaped_def)
  have m: "\<not> apiKeyShaped ((CHR ''x'' # replicate 149 (CHR ''x'')))"
    by (simp add: apiKeyShaped_def)
  have m': "\<not> webSessionShaped ((CHR ''x'' # replicate 149 (CHR ''x'')))"
    by (simp add: webSessionShaped_def count_list_0_iff)
  have m'': "length ((CHR ''x'' # replicate 149 (CHR ''x''))) \<ge> 100"
    by simp
  have 1: "detectTokenType ''sk-test1234'' = TokenTypeZAI"
    using k detectTokenType_classification [of "''sk-test1234''"] by (elim conjE) (rule mp)
  have 2: "detectTokenType (''h.p.'' @ replicate 120 (CHR ''x'')) = TokenTypeAnthropic"
    using detectTokenType_classification [of "''h.p.'' @ replicate 120 (CHR ''x'')"] j j'
    by (elim conjE) (rule mp, assumption, rule conjI)
  have 3: "detectTokenType ''abc'' = TokenTypeZAI"
    using detectTokenType_classification [of "''abc''"] s
    by (elim conjE) (rule mp, assumption, intro conjI)
  have 4: "detectTokenType [] = TokenTypeUnknown"
    using detectTokenType_classification [of "[]"] e
    by (elim conjE) (rule mp, assumption, intro conjI disjI1 refl)
  have 5: "detectTokenType ((CHR ''x'' # replicate 149 (CHR ''x''))) = TokenTypeUnknown"
    using detectTokenType_classification [of "(CHR ''x'' # replicate 149 (CHR ''x''))"] m m' m''
    by (elim conjE) (rule mp, assumption, intro conjI disjI2)
  show ?thesis
    using 1 2 3 4 5 by (intro conjI)
qed

text \<open>
  Claim C9. \<open>maskToken\<close> returns the placeholder of eight asterisks for a credential of at
  most 8 bytes; for a longer one it returns 11 bytes: the first 4 bytes of the credential,
  the separator \<open>...\<close>, and the last 4 bytes of the credential.
\<close>

theorem maskToken_shape:
  "(length t \<le> 8 \<longrightarrow> maskToken t = ''********'' \<and> length (maskToken t) = 8)
   \<and> (length t > 8 \<longrightarrow>
        maskToken t = take 4 t @ ''...'' @ drop (length t - 4) t
        \<and> length (maskToken t) = 11
        \<and> take 4 (maskToken t) = take 4 t
        \<and> take 3 (drop 4 (maskToken t)) = ''...''
        \<and> drop 7 (maskToken t) = drop (length t - 4) t
        \<and> length (drop (length t - 4) t) = 4)"
  by (auto simp: maskToken_def)

theorem maskToken_shape_witness:
  "maskToken ''sk-test'' = ''********'' \<and> maskToken ''sk-test1234'' = ''sk-t...1234''"
  using maskToken_shape [of "''sk-test''"] maskToken_shape [of "''sk-test1234''"]
  by simp
section \<open>Failure to write the backup\<close>

text \<open>
  Claim C5. When \<open>switchToZAI\<close> finds settings that classify as Anthropic with a
  non-empty mapping, no valid Anthropic backup, and the backup cannot be written, the run
  ends with an error and exit code 1: the settings file and the backup file are unchanged,
  and no credential is obtained (nothing is read from the terminal, the token file is
  unchanged, and the output ends with the report of the backup check).
\<close>

theorem backup_failure_aborts:
  assumes "loadConfig SettingsFile w = Inr config"
    and "detectProvider (Some config) = ProviderAnthropic" and "len (Env config) > 0"
    and "hasValidAnthropicBackup w = (hasBackup, backup, err)"
    and "\<not> (hasBackup \<and> backup \<noteq> None)"
    and "backupSaveFails w"
  shows "(\<exists>e. fst (switchToZAI w) =
              Some (Errorf ''failed to backup Anthropic config (web login token)'' e))
    \<and> fst (main CmdZAI w) = 1
    \<and> files (snd (switchToZAI w)) SettingsFile = files w SettingsFile
    \<and> files (snd (switchToZAI w)) BackupFile = files w BackupFile
    \<and> stdin (snd (switchToZAI w)) = stdin w
    \<and> token_file (snd (switchToZAI w)) = token_file w
    \<and> out (snd (switchToZAI w)) =
        out w @ Print ''Switching to Z.AI API...'' [] #
          (case err of
             None \<Rightarrow> []
           | Some e \<Rightarrow> [Print ''Failed to check existing backup: %v'' [Err e]])"
proof -
  let ?r = "createBackupWithMetadata config ProviderAnthropic (checked err w)"
  have "backupSaveFails (checked err w)"
    using assms(6) by (simp add: backupSaveFails_def)
  then obtain e where e: "fst ?r = Some e"
    using createBackupWithMetadata_fst [of config ProviderAnthropic "checked err w"] by auto
  have eq: "switchToZAI w =
      (Some (Errorf ''failed to backup Anthropic config (web login token)'' e), snd ?r)"
    using switchToZAI_backup [OF assms(1,2,4,5)] e by (simp add: case_prod_beta)
  have b: "files (snd ?r) BackupFile = files w BackupFile"
    using \<open>backupSaveFails (checked err w)\<close> by (simp add: createBackupWithMetadata_backup)
  show ?thesis
    using eq b by (simp add: main_def out_checked)
qed

theorem backup_failure_aborts_witness:
  "fst (switchToZAI stuckWorld) =
     Some (Errorf ''failed to backup Anthropic config (web login token)''
            (Errorf ''failed to write temp backup'' PathError))
   \<and> fst (main CmdZAI stuckWorld) = 1
   \<and> files (snd (switchToZAI stuckWorld)) SettingsFile = files stuckWorld SettingsFile
   \<and> stdin (snd (switchToZAI stuckWorld)) = stdin stuckWorld
   \<and> out (snd (switchToZAI stuckWorld)) =
        [Print ''Switching to Z.AI API...'' [],
         Print ''Failed to check existing backup: %v'' [Err SyntaxError]]"
proof -
  have l: "len (Env \<lparr>Env = Some [(''ANTHROPIC_AUTH_TOKEN'', ''web-session-token'')]\<rparr>) > 0"
    by (simp add: len_def)
  have n: "\<not> (False \<and> (None :: BackupConfig option) \<noteq> None)"
    by simp
  have f: "backupSaveFails stuckWorld"
    by (simp add: backupSaveFails_def stuckWorld_def)
  have o: "out stuckWorld = []"
    by (simp add: stuckWorld_def anthropicWorld_def emptyWorld_def)
  have e: "fst (switchToZAI stuckWorld) =
     Some (Errorf ''failed to backup Anthropic config (web login token)''
            (Errorf ''failed to write temp backup'' PathError))"
    using switchToZAI_backup [OF stuckWorld_settings anthropic_isAnthropic stuckWorld_backup n]
    by (simp add: createBackupWithMetadata_cases stuckWorld_def)
  show ?thesis
    using backup_failure_aborts [OF stuckWorld_settings anthropic_isAnthropic l stuckWorld_backup n f]
      e o
    by simp
qed

section \<open>The settings that a switch to Z.AI writes\<close>

text \<open>
  Claim C6, as stated, fails for a credential that is not valid UTF-8. With the credential
  \<open>sk-\<close>, byte \<open>FF\<close>, \<open>test\<close> in \<open>ZAI_AUTH_TOKEN\<close>, \<open>switchToZAI\<close> succeeds with
  that credential, and the mapping that the settings file then holds has the six keys, but
  it maps \<open>ANTHROPIC_AUTH_TOKEN\<close> to \<open>sk-\<close>, bytes \<open>EF BF BD\<close>, \<open>test\<close>: the encoder has
  replaced the invalid byte by U+FFFD.
\<close>

theorem zai_settings_exact_counterexample:
  "fst (switchToZAI invalidTokenWorld) = None
   \<and> fst (promptForToken invalidTokenWorld) = (''sk-'' @ [CHR 0xFF] @ ''test'', None)
   \<and> files (snd (switchToZAI invalidTokenWorld)) SettingsFile
       = Some (MarshalConfig (zaiConfig (''sk-'' @ [CHR 0xFF] @ ''test'')))
   \<and> loadConfig SettingsFile (snd (switchToZAI invalidTokenWorld))
       = Inr \<lparr>Env = Some (zaiMapping (''sk-'' @ [CHR 0xEF, CHR 0xBF, CHR 0xBD] @ ''test''))\<rparr>
   \<and> index (Some (zaiMapping (''sk-'' @ [CHR 0xEF, CHR 0xBF, CHR 0xBD] @ ''test'')))
         ''ANTHROPIC_AUTH_TOKEN'' = ''sk-'' @ [CHR 0xEF, CHR 0xBF, CHR 0xBD] @ ''test''
   \<and> ''sk-'' @ [CHR 0xEF, CHR 0xBF, CHR 0xBD] @ ''test'' \<noteq> ''sk-'' @ [CHR 0xFF] @ ''test''"
proof -
  have p: "fst (promptForToken invalidTokenWorld) = (invalidToken, None)"
    by (simp add: promptForToken_def invalidTokenWorld_def invalidToken_def emptyWorld_def)
  have s: "fst (switchToZAI invalidTokenWorld) = None"
    using switchToZAI_unknown [OF invalidTokenWorld_settings freshWorld_unknown]
    by (simp add: applyZAI_def promptForToken_def validateTokenForProvider_def Let_def
        invalidTokenWorld_def invalidToken_def emptyWorld_def saveConfigAtomic_fst
        settingsSaveFails_def hasValidAnthropicBackup_def)
  have z: "\<not> isZAIConfig (Some \<lparr>Env = Some []\<rparr>)"
    by (simp add: isZAIConfig_def freshWorld_unknown Provider_defs)
  from switchToZAI_cases [OF invalidTokenWorld_settings z] s
  obtain wm where wm: "switchToZAI invalidTokenWorld = applyZAI wm"
    "sameInputs invalidTokenWorld wm"
    by auto
  have "applyZAI wm = (None, snd (switchToZAI invalidTokenWorld))"
    using wm(1) s by (simp add: prod_eq_iff)
  from applyZAI_success [OF this]
  obtain t where t: "fst (promptForToken wm) = (t, None)"
    "files (snd (switchToZAI invalidTokenWorld)) =
       (files wm)(SettingsFile \<mapsto> MarshalConfig (zaiConfig t), Tmp SettingsFile := None)"
    by auto
  have "t = invalidToken"
    using promptForToken_inputs [OF wm(2)] t(1) p by simp
  then have f: "files (snd (switchToZAI invalidTokenWorld)) SettingsFile
      = Some (MarshalConfig (zaiConfig invalidToken))"
    using t(2) by simp
  have "sameFlags invalidTokenWorld (snd (switchToZAI invalidTokenWorld))"
    by (rule switchToZAI_sameFlags)
  then have u: "SettingsFile \<notin> unreadable (snd (switchToZAI invalidTokenWorld))"
    by (simp add: sameFlags_def invalidTokenWorld_def emptyWorld_def)
  have l: "loadConfig SettingsFile (snd (switchToZAI invalidTokenWorld))
      = Inr \<lparr>Env = Some (zaiMapping (toValidUTF8 invalidToken))\<rparr>"
    using f u by (simp add: loadConfig_def ReadFile_def zaiConfig_document zaiMapping_def)
  show ?thesis
    using p s f l
    by (simp add: invalidToken_coerced index_def zaiMapping_def) (simp add: invalidToken_def)
qed

text \<open>
  Claim C6, amended. Whenever \<open>switchToZAI\<close> succeeds on settings that do not already
  classify as ZAI, it has obtained a non-empty credential \<open>t\<close>, and the settings file then
  holds a mapping of exactly six keys: the five fixed Z.AI keys with their fixed values and
  \<open>ANTHROPIC_AUTH_TOKEN\<close> with \<open>t\<close> coerced to valid UTF-8, every byte of \<open>t\<close> that is part
  of no well-formed encoding replaced by U+FFFD; that is \<open>t\<close> itself when \<open>t\<close> is valid
  UTF-8. The mapping does not depend on the configuration that was there before: none of
  its keys is carried over.
\<close>

theorem zai_settings_six_keys:
  assumes "switchToZAI w = (None, w')" and "loadConfig SettingsFile w = Inr config"
    and "\<not> isZAIConfig (Some config)"
  shows "\<exists>t env. fst (promptForToken w) = (t, None) \<and> t \<noteq> []
    \<and> files w' SettingsFile = Some (MarshalConfig (zaiConfig t))
    \<and> UnmarshalConfig (MarshalConfig (zaiConfig t)) = Inr \<lparr>Env = Some env\<rparr>
    \<and> env = zaiMapping (toValidUTF8 t)
    \<and> (validUTF8 t \<longrightarrow> env = zaiMapping t)
    \<and> set (map fst env) = set (''ANTHROPIC_AUTH_TOKEN'' # zaiEnvKeys)
    \<and> length env = 6 \<and> distinct (map fst env)"
proof -
  from switchToZAI_cases [OF assms(2,3)] assms(1)
  obtain wm where wm: "switchToZAI w = applyZAI wm" "sameInputs w wm"
    by auto
  from applyZAI_success [of wm w'] wm(1) assms(1)
  obtain t where t: "fst (promptForToken wm) = (t, None)"
    "files w' = (files wm)(SettingsFile \<mapsto> MarshalConfig (zaiConfig t), Tmp SettingsFile := None)"
    by auto
  have p: "fst (promptForToken w) = (t, None)"
    using promptForToken_inputs [OF wm(2)] t(1) by simp
  have n: "t \<noteq> []"
    using promptForToken_nonempty [OF p] .
  have f: "files w' SettingsFile = Some (MarshalConfig (zaiConfig t))"
    using t(2) by simp
  have d: "UnmarshalConfig (MarshalConfig (zaiConfig t))
      = Inr \<lparr>Env = Some (zaiMapping (toValidUTF8 t))\<rparr>"
    by (simp add: zaiConfig_document zaiMapping_def)
  have v: "validUTF8 t \<longrightarrow> zaiMapping (toValidUTF8 t) = zaiMapping t"
    by (simp add: validUTF8_fixed)
  show ?thesis
    using p n f d v zaiMapping_keys [of "toValidUTF8 t"]
    by (intro exI [of _ t] exI [of _ "zaiMapping (toValidUTF8 t)"]) simp
qed

theorem zai_settings_six_keys_witness:
  "files (snd (switchToZAI freshWorld)) SettingsFile = Some (MarshalConfig (zaiConfig ''sk-test1234''))
   \<and> validUTF8 ''sk-test1234''
   \<and> UnmarshalConfig (MarshalConfig (zaiConfig ''sk-test1234'')) =
       Inr \<lparr>Env = Some
        [(''ANTHROPIC_AUTH_TOKEN'', ''sk-test1234''),
         (''ANTHROPIC_BASE_URL'', ''https://api.z.ai/api/anthropic''),
         (''ANTHROPIC_DEFAULT_HAIKU_MODEL'', ''GLM-4.5-Air''),
         (''ANTHROPIC_DEFAULT_OPUS_MODEL'', ''GLM-4.6''),
         (''ANTHROPIC_DEFAULT_SONNET_MODEL'', ''GLM-4.6''),
         (''API_TIMEOUT_MS'', ''3000000'')]\<rparr>"
proof -
  have s: "switchToZAI freshWorld = (None, snd (switchToZAI freshWorld))"
    using freshWorld_switch by (simp add: prod_eq_iff)
  have z: "\<not> isZAIConfig (Some \<lparr>Env = Some []\<rparr>)"
    by (simp add: isZAIConfig_def freshWorld_unknown Provider_defs)
  have v: "validUTF8 ''sk-test1234''"
    by (simp add: validUTF8.simps runeWidth_def byte_def)
  show ?thesis
    using zai_settings_six_keys [OF s freshWorld_settings z] freshWorld_token v
    by (auto simp: zaiMapping_def)
qed

section \<open>Switching to Anthropic twice\<close>




section \<open>An invalid backup is replaced\<close>

text \<open>
  Claim C10, as stated, fails: with Anthropic settings, a backup file that is no JSON text
  and a disk that refuses the temporary backup file, \<open>switchToZAI\<close> ends with the
  backup error and leaves the unusable backup file in place.
\<close>

theorem invalid_backup_counterexample:
  "loadConfig SettingsFile stuckWorld =
     Inr \<lparr>Env = Some [(''ANTHROPIC_AUTH_TOKEN'', ''web-session-token'')]\<rparr>
   \<and> detectProvider (Some \<lparr>Env = Some [(''ANTHROPIC_AUTH_TOKEN'', ''web-session-token'')]\<rparr>)
       = ProviderAnthropic
   \<and> hasValidAnthropicBackup stuckWorld = (False, None, Some SyntaxError)
   \<and> fst (switchToZAI stuckWorld) =
       Some (Errorf ''failed to backup Anthropic config (web login token)''
              (Errorf ''failed to write temp backup'' PathError))
   \<and> files (snd (switchToZAI stuckWorld)) BackupFile = Some NotJSON"
proof -
  have n: "\<not> (False \<and> (None :: BackupConfig option) \<noteq> None)"
    by simp
  have "switchToZAI stuckWorld =
     (Some (Errorf ''failed to backup Anthropic config (web login token)''
            (Errorf ''failed to write temp backup'' PathError)), checked (Some SyntaxError) stuckWorld)"
    using switchToZAI_backup [OF stuckWorld_settings anthropic_isAnthropic stuckWorld_backup n]
    by (simp add: createBackupWithMetadata_cases stuckWorld_def)
  then show ?thesis
    using stuckWorld_settings anthropic_isAnthropic stuckWorld_backup
    by (simp add: stuckWorld_def)
qed

text \<open>
  Claim C10, amended. When \<open>switchToZAI\<close> finds settings that classify as Anthropic
  with a non-empty mapping and the check of the backup slot does not return a valid
  Anthropic backup (it returns false, with or without an error), the run does not end
  there: provided the new backup can be written, the backup slot is overwritten with a
  fresh Anthropic backup of the current configuration, and the run goes on to obtain the
  credential and apply the Z.AI configuration.
\<close>

theorem invalid_backup_is_replaced:
  assumes "loadConfig SettingsFile w = Inr config"
    and "detectProvider (Some config) = ProviderAnthropic" and "len (Env config) > 0"
    and "hasValidAnthropicBackup w = (hasBackup, backup, err)"
    and "\<not> (hasBackup \<and> backup \<noteq> None)"
    and "\<not> backupSaveFails w"
  shows "switchToZAI w =
      applyZAI (say ''Anthropic configuration backed up (web login token saved)''
        ((checked err w)\<lparr>files := (files w)
            (BackupFile \<mapsto> freshBackup config w, Tmp BackupFile := None)\<rparr>))
    \<and> files (snd (switchToZAI w)) BackupFile = Some (freshBackup config w)"
proof -
  let ?r = "createBackupWithMetadata config ProviderAnthropic (checked err w)"
  have nf: "\<not> backupSaveFails (checked err w)"
    using assms(6) by (simp add: backupSaveFails_def)
  have r: "?r = (None, (checked err w)\<lparr>files := (files w)
            (BackupFile \<mapsto> freshBackup config w, Tmp BackupFile := None)\<rparr>)"
    using nf by (simp add: createBackupWithMetadata_cases backupSaveFails_def freshBackup_def)
  have eq: "switchToZAI w =
      applyZAI (say ''Anthropic configuration backed up (web login token saved)'' (snd ?r))"
    using switchToZAI_backup [OF assms(1,2,4,5)] r by simp
  then have "files (snd (switchToZAI w)) BackupFile = files (snd ?r) BackupFile"
    by simp
  then show ?thesis
    using eq r nf by (simp add: createBackupWithMetadata_backup)
qed

theorem invalid_backup_is_replaced_witness:
  "files (snd (switchToZAI staleWorld)) BackupFile =
     Some (MarshalBackup
       \<lparr>Metadata = \<lparr>Provider = ProviderAnthropic, CreatedAt = ''2025-01-01T00:00:00Z'',
                    Version = Version_const\<rparr>,
        BackupEnv = Some [(''ANTHROPIC_AUTH_TOKEN'', ''web-session-token'')]\<rparr>)
   \<and> fst (switchToZAI staleWorld) = None
   \<and> files (snd (switchToZAI staleWorld)) SettingsFile
       = Some (MarshalConfig (zaiConfig ''sk-test1234''))"
proof -
  have l: "len (Env \<lparr>Env = Some [(''ANTHROPIC_AUTH_TOKEN'', ''web-session-token'')]\<rparr>) > 0"
    by (simp add: len_def)
  have n: "\<not> (False \<and> (None :: BackupConfig option) \<noteq> None)"
    by simp
  have f: "\<not> backupSaveFails staleWorld"
    by (simp add: backupSaveFails_def staleWorld_def anthropicWorld_def emptyWorld_def)
  note t = invalid_backup_is_replaced [OF staleWorld_settings anthropic_isAnthropic l staleWorld_backup n f]
  have "switchToZAI staleWorld =
      applyZAI (say ''Anthropic configuration backed up (web login token saved)''
        ((checked (Some SyntaxError) staleWorld)\<lparr>files := (files staleWorld)
            (BackupFile \<mapsto> freshBackup \<lparr>Env = Some [(''ANTHROPIC_AUTH_TOKEN'', ''web-session-token'')]\<rparr> staleWorld,
             Tmp BackupFile := None)\<rparr>))"
    using t by simp
  then have a: "fst (switchToZAI staleWorld) = None
    \<and> files (snd (switchToZAI staleWorld)) SettingsFile
       = Some (MarshalConfig (zaiConfig ''sk-test1234''))"
    by (simp add: applyZAI_def promptForToken_def validateTokenForProvider_def Let_def
        staleWorld_def anthropicWorld_def emptyWorld_def saveConfigAtomic_files
        saveConfigAtomic_fst settingsSaveFails_def)
  show ?thesis
    using t a by (simp add: freshBackup_def staleWorld_def anthropicWorld_def emptyWorld_def)
qed

end
